theory Spec2Isabelle
  imports Complex_Main "HOL-Library.AList"
begin

section \<open>Daily code statistics: data model\<close>

text \<open>
  The development follows \<^verbatim>\<open>scripts/metrics/daily_code_stats.py\<close>.
  A Python \<^verbatim>\<open>str\<close> is a list of code points; here it is a \<^typ>\<open>string\<close>, one
  \<^typ>\<open>char\<close> per code point, which covers the code points below 256.
  Python's unbounded \<^verbatim>\<open>int\<close> is \<^typ>\<open>int\<close>. A raised exception is a value
  \<open>Inl e\<close> of a sum type.
\<close>

datatype error =
    ZeroDivisionError
  | AttributeError
  | HTTPError nat
  | RequestException string
  | OSError string

text \<open>
  \<^verbatim>\<open>SENIOR_ENGINEER_STANDARDS\<close>: the three thresholds of the dictionary. The ratio
  \<^verbatim>\<open>0.6\<close> and the quotient of \<^verbatim>\<open>effective_ratio\<close> are Python floats; they are
  modelled by the exact rationals. Python's division of two integers returns the double
  nearest to the exact quotient, and rounding is monotone, so the comparison with
  \<^verbatim>\<open>0.6\<close> agrees with the exact one unless the quotient lies within one rounding
  error (about \<open>10\<^sup>-\<^sup>1\<^sup>6\<close>) of \<open>3/5\<close> without being equal to it, which needs a
  denominator above \<open>10\<^sup>1\<^sup>5\<close>.
\<close>

definition min_effective_lines :: int where
  "min_effective_lines = 80"

definition min_commits :: int where
  "min_commits = 2"

definition effective_ratio_threshold :: rat where
  "effective_ratio_threshold = 6 / 10"

record CommitStats =
  sha :: string
  message :: string
  additions :: int
  deletions :: int
  commit_effective_additions :: int
  commit_files_changed :: int

record DeveloperStats =
  name :: string
  email :: string
  commits :: "CommitStats list"
  total_additions :: int
  total_deletions :: int
  effective_additions :: int
  files_changed :: int
  projects :: "string set"

text \<open>The dataclass constructor \<^verbatim>\<open>DeveloperStats(name=..., email=...)\<close> with its defaults.\<close>

definition new_DeveloperStats :: "string \<Rightarrow> string \<Rightarrow> DeveloperStats" where
  "new_DeveloperStats n e =
     \<lparr> name = n, email = e, commits = [], total_additions = 0, total_deletions = 0,
       effective_additions = 0, files_changed = 0, projects = {} \<rparr>"

definition commit_count :: "DeveloperStats \<Rightarrow> nat" where
  "commit_count self = length (commits self)"

text \<open>Python's \<^verbatim>\<open>a / b\<close> on integers raises \<^verbatim>\<open>ZeroDivisionError\<close> when \<open>b = 0\<close>.\<close>

definition truediv :: "int \<Rightarrow> int \<Rightarrow> error + rat" where
  "truediv a b = (if b = 0 then Inl ZeroDivisionError else Inr (of_int a / of_int b))"

definition effective_ratio :: "DeveloperStats \<Rightarrow> error + rat" where
  "effective_ratio self =
     (if total_additions self = 0 then Inr 0
      else truediv (effective_additions self) (total_additions self))"

text \<open>
  The issue strings of \<^verbatim>\<open>meets_standard\<close> are f-strings around two numbers each; an
  issue is modelled by its kind and the two numbers it embeds (actual, required).
\<close>

datatype issue =
    LinesBelow int int
  | CommitsBelow nat int
  | RatioBelow rat rat

definition meets_standard :: "DeveloperStats \<Rightarrow> error + bool \<times> issue list" where
  "meets_standard self =
     (let issues0 = [];
          issues1 = (if effective_additions self < min_effective_lines
                     then issues0 @ [LinesBelow (effective_additions self) min_effective_lines]
                     else issues0);
          issues2 = (if int (commit_count self) < min_commits
                     then issues1 @ [CommitsBelow (commit_count self) min_commits]
                     else issues1)
      in case effective_ratio self of
           Inl e \<Rightarrow> Inl e
         | Inr r \<Rightarrow>
             (let issues3 = (if r < effective_ratio_threshold \<and> total_additions self > 50
                             then issues2 @ [RatioBelow r effective_ratio_threshold]
                             else issues2)
              in Inr (length issues3 = 0, issues3)))"

section \<open>Strings and regular expressions\<close>

text \<open>The newline character, and the string methods the script uses.\<close>

definition newline :: char where
  "newline = CHR 0x0A"

definition startswith :: "string \<Rightarrow> string \<Rightarrow> bool" where
  "startswith s p = (take (length p) s = p)"

definition endswith :: "string \<Rightarrow> string \<Rightarrow> bool" where
  "endswith s p = (length p \<le> length s \<and> drop (length s - length p) s = p)"

text \<open>
  \<^verbatim>\<open>s.split("\n")\<close>: the pieces between the newlines; an empty string gives one empty
  piece. The second branch of the \<open>case\<close> is never taken, the result being non-empty.
\<close>

fun split_lines :: "string \<Rightarrow> string list" where
  "split_lines [] = [[]]"
| "split_lines (c # cs) =
     (if c = newline then [] # split_lines cs
      else (case split_lines cs of l # ls \<Rightarrow> (c # l) # ls | [] \<Rightarrow> [[c]]))"

text \<open>\<^verbatim>\<open>"\n".join(parts)\<close>.\<close>

fun join_lines :: "string list \<Rightarrow> string" where
  "join_lines [] = []"
| "join_lines [l] = l"
| "join_lines (l # m # ls) = l @ newline # join_lines (m # ls)"

text \<open>
  The character classes of Python's \<^verbatim>\<open>re\<close> on \<^verbatim>\<open>str\<close> patterns, for the code points
  below 256: \<^verbatim>\<open>\s\<close> is \<^verbatim>\<open>str.isspace\<close> (tab to carriage return, the four separators
  0x1C to 0x1F, space, 0x85 and 0xA0), \<^verbatim>\<open>\w\<close> is \<^verbatim>\<open>str.isalnum\<close> or the underscore.
\<close>

definition isspace :: "char \<Rightarrow> bool" where
  "isspace c =
     (let n = (of_char c :: nat)
      in (9 \<le> n \<and> n \<le> 13) \<or> (28 \<le> n \<and> n \<le> 32) \<or> n = 133 \<or> n = 160)"

definition isword :: "char \<Rightarrow> bool" where
  "isword c =
     (let n = (of_char c :: nat)
      in (48 \<le> n \<and> n \<le> 57) \<or> (65 \<le> n \<and> n \<le> 90) \<or> n = 95 \<or> (97 \<le> n \<and> n \<le> 122) \<or>
         n = 170 \<or> n = 178 \<or> n = 179 \<or> n = 181 \<or> n = 185 \<or> n = 186 \<or>
         (188 \<le> n \<and> n \<le> 190) \<or> (192 \<le> n \<and> n \<le> 214) \<or> (216 \<le> n \<and> n \<le> 246) \<or>
         (248 \<le> n \<and> n \<le> 255))"

text \<open>
  The fragment of regular expressions that \<^verbatim>\<open>EXCLUDE_PATTERNS\<close> uses: a pattern is a
  sequence of items; an item is an anchor or a one-character class with a quantifier.
  \<open>Chr c\<close> is the literal \<open>c\<close>, \<open>Space\<close> is \<^verbatim>\<open>\s\<close>, \<open>WordChar\<close> is \<^verbatim>\<open>\w\<close>, \<open>NotChr c\<close>
  is \<^verbatim>\<open>[^c]\<close>; \<open>Bol\<close> is \<^verbatim>\<open>^\<close>, \<open>Eol\<close> is \<^verbatim>\<open>$\<close>, and \<open>One\<close>, \<open>Opt\<close>, \<open>Star\<close>, \<open>Plus\<close> are
  no quantifier, \<^verbatim>\<open>?\<close>, \<^verbatim>\<open>*\<close> and \<^verbatim>\<open>+\<close>.
\<close>

datatype cclass = Chr char | Space | WordChar | NotChr char

datatype item = Bol | Eol | One cclass | Opt cclass | Star cclass | Plus cclass

type_synonym regex = "item list"

fun in_class :: "cclass \<Rightarrow> char \<Rightarrow> bool" where
  "in_class (Chr a) c = (c = a)"
| "in_class Space c = isspace c"
| "in_class WordChar c = isword c"
| "in_class (NotChr a) c = (c \<noteq> a)"

text \<open>
  \<open>match_at p n s\<close>: the pattern \<open>p\<close> matches some prefix of \<open>s\<close>, where \<open>s\<close> is what is
  left of the subject after its first \<open>n\<close> characters. A quantifier tries the longer
  match first and backs off, as the backtracking matcher of \<^verbatim>\<open>re\<close> does. Without the
  \<^verbatim>\<open>MULTILINE\<close> flag, \<^verbatim>\<open>^\<close> matches only at the start of the subject, and \<^verbatim>\<open>$\<close> at its end
  or just before a newline that ends it.
\<close>

fun match_at :: "regex \<Rightarrow> nat \<Rightarrow> string \<Rightarrow> bool" where
  "match_at [] n s = True"
| "match_at (Bol # p) n s = (n = 0 \<and> match_at p n s)"
| "match_at (Eol # p) n s = ((s = [] \<or> s = [newline]) \<and> match_at p n s)"
| "match_at (One a # p) n [] = False"
| "match_at (One a # p) n (c # cs) = (in_class a c \<and> match_at p (Suc n) cs)"
| "match_at (Opt a # p) n [] = match_at p n []"
| "match_at (Opt a # p) n (c # cs) =
     ((in_class a c \<and> match_at p (Suc n) cs) \<or> match_at p n (c # cs))"
| "match_at (Star a # p) n [] = match_at p n []"
| "match_at (Star a # p) n (c # cs) =
     ((in_class a c \<and> match_at (Star a # p) (Suc n) cs) \<or> match_at p n (c # cs))"
| "match_at (Plus a # p) n [] = False"
| "match_at (Plus a # p) n (c # cs) = (in_class a c \<and> match_at (Star a # p) (Suc n) cs)"

text \<open>\<^verbatim>\<open>re.match(pattern, line)\<close> is not \<^verbatim>\<open>None\<close>.\<close>

definition re_match :: "regex \<Rightarrow> string \<Rightarrow> bool" where
  "re_match p line = match_at p 0 line"

text \<open>A run of literal characters in a pattern.\<close>

definition lit :: "string \<Rightarrow> regex" where
  "lit w = map (\<lambda>c. One (Chr c)) w"

section \<open>Line classification\<close>

definition EXCLUDE_PATTERNS :: "regex list" where
  "EXCLUDE_PATTERNS =
    [ [Bol, Star Space, Eol],
      [Bol, Star Space] @ lit ''//'',
      [Bol, Star Space] @ lit ''/*'',
      [Bol, Star Space] @ lit ''*'',
      [Bol, Star Space] @ lit ''*/'',
      [Bol, Star Space] @ lit ''import'' @ [Plus Space],
      [Bol, Star Space] @ lit ''package'' @ [Plus Space],
      [Bol, Star Space, One (Chr CHR ''@''), Plus WordChar, Star Space, Eol],
      [Bol, Star Space, One (Chr CHR ''@''), Plus WordChar, One (Chr CHR ''(''),
         Star (NotChr CHR '')''), One (Chr CHR '')''), Star Space, Eol],
      [Bol, Star Space, One (Chr CHR ''}''), Star Space, Eol],
      [Bol, Star Space, One (Chr CHR ''{''), Star Space, Eol],
      [Bol, Star Space, One (Chr CHR '')''), Opt (Chr CHR '';''), Star Space, Eol],
      [Bol, Star Space] @ lit ''private'' @ [Plus Space] @ lit ''static'' @ [Plus Space] @
         lit ''final'' @ [Plus Space] @ lit ''long'' @ [Plus Space] @ lit ''serialVersionUID'' ]"

text \<open>The loop of \<^verbatim>\<open>is_effective_line\<close> over the patterns, in their order.\<close>

fun is_effective_loop :: "regex list \<Rightarrow> string \<Rightarrow> bool" where
  "is_effective_loop [] line = True"
| "is_effective_loop (pattern # rest) line =
     (if re_match pattern line then False else is_effective_loop rest line)"

definition is_effective_line :: "string \<Rightarrow> bool" where
  "is_effective_line line = is_effective_loop EXCLUDE_PATTERNS line"

text \<open>The loop of \<^verbatim>\<open>count_effective_lines\<close> over the lines of a diff body.\<close>

fun count_effective_loop :: "string list \<Rightarrow> int \<Rightarrow> int" where
  "count_effective_loop [] effective = effective"
| "count_effective_loop (line # rest) effective =
     (if startswith line ''+'' \<and> \<not> startswith line ''+++''
      then (let actual_line = drop 1 line
            in if is_effective_line actual_line
               then count_effective_loop rest (effective + 1)
               else count_effective_loop rest effective)
      else count_effective_loop rest effective)"

definition count_effective_lines :: "string \<Rightarrow> int" where
  "count_effective_lines diff_content = count_effective_loop (split_lines diff_content) 0"

section \<open>The exclusion rules in words\<close>








text \<open>A pattern without \<^verbatim>\<open>^\<close> matches wherever it is tried; \<open>matches_here\<close> tries it.\<close>

definition matches_here :: "regex \<Rightarrow> string \<Rightarrow> bool" where
  "matches_here p s = match_at p 0 s"

section \<open>The world outside the script\<close>

text \<open>
  A query-string or JSON parameter dictionary is an association list in insertion order,
  updated with \<^const>\<open>AList.update\<close> as a Python \<^verbatim>\<open>dict\<close> is by assignment.
\<close>

datatype pval = PStr string | PInt int

type_synonym params = "(string \<times> pval) list"

type_synonym headers = "(string \<times> string) list"

text \<open>
  The decoded JSON of the hosting API. A field read with \<^verbatim>\<open>.get(key, default)\<close> is an
  option, \<open>None\<close> when the key is absent; a field read with \<^verbatim>\<open>[key]\<close> is always
  there. The two fields of a file diff may hold any JSON value: \<open>JStr\<close> is a string,
  \<open>JOther\<close> any value that is not one (on which \<^verbatim>\<open>.endswith\<close> and \<^verbatim>\<open>.split\<close> raise
  \<^verbatim>\<open>AttributeError\<close>).
\<close>

record project =
  project_id :: int
  project_name :: string

record commit_stats_json =
  json_additions :: "int option"
  json_deletions :: "int option"

record commit =
  commit_id :: string
  author_email :: "string option"
  author_name :: "string option"
  stats :: "commit_stats_json option"
  title :: "string option"

datatype jval = JStr string | JOther

record file_diff =
  new_path :: "jval option"
  diff :: "jval option"

text \<open>
  The bodies of the three notification requests, by the values they embed (the content;
  for the bot, the chat and the text), and what a response shows.
\<close>

datatype payload =
    WecomMarkdown string
  | DingtalkMarkdown string
  | TelegramMessage string string

record response =
  status_code :: nat
  text_of :: string

text \<open>
  What \<^verbatim>\<open>print\<close> writes: each \<^verbatim>\<open>print\<close> statement of the script is one constructor,
  with the values its f-string embeds.
\<close>

datatype printed =
    TimeRange string string
  | ProjectsFound nat
  | AnalyzingProject string
  | CommitsFound nat
  | AnalyzeWarning string error
  | WecomResult nat
  | DingtalkResult nat
  | TelegramSent nat nat
  | TelegramFailed nat string
  | MissingUrl
  | MissingToken
  | MissingGroup
  | Banner
  | StatsDate string
  | EmptyLine
  | NoCommits
  | TextReport string
  | ReportSaved string
  | StatsFailed error
  | Traceback error

text \<open>What the script does that can be seen from outside, in order.\<close>

datatype event =
    HttpGet string "params option"
  | HttpPost string payload
  | Print printed
  | FileWrite string string

text \<open>A date, by the two renderings the script takes of it: \<^verbatim>\<open>%Y-%m-%d\<close> and \<^verbatim>\<open>%Y%m%d\<close>.\<close>

record date =
  ymd_dashed :: string
  ymd_compact :: string

text \<open>
  The world answers the requests. \<open>get_projects\<close>, \<open>get_commits\<close> and \<open>get_diffs\<close> are
  \<^verbatim>\<open>requests.get(url, headers=..., params=..., timeout=30)\<close> followed by
  \<^verbatim>\<open>raise_for_status()\<close> and \<^verbatim>\<open>json()\<close>, at the three types of body the script
  reads: the decoded body, or the exception raised. \<open>post\<close> is \<^verbatim>\<open>requests.post\<close>, which
  returns a response of any status or raises; \<open>write_file\<close> is opening and writing the
  report file; \<open>report_dir\<close> is the directory of the script and \<open>clock_yesterday\<close> the
  day before the clock's, \<^verbatim>\<open>datetime.now() - timedelta(days=1)\<close>.
\<close>

record world =
  get_projects :: "string \<Rightarrow> headers \<Rightarrow> params option \<Rightarrow> error + project list"
  get_commits :: "string \<Rightarrow> headers \<Rightarrow> params option \<Rightarrow> error + commit list"
  get_diffs :: "string \<Rightarrow> headers \<Rightarrow> params option \<Rightarrow> error + file_diff list"
  post :: "string \<Rightarrow> payload \<Rightarrow> error + response"
  write_file :: "string \<Rightarrow> string \<Rightarrow> error + unit"
  report_dir :: string
  clock_yesterday :: date

text \<open>The module-level configuration and the environment variables read in \<^verbatim>\<open>main\<close>.\<close>

record config =
  GITLAB_URL :: string
  GITLAB_TOKEN :: string
  GITLAB_GROUP :: string
  PROJECT_PREFIXES :: "string list"
  WECOM_WEBHOOK :: "string option"
  DINGTALK_WEBHOOK :: "string option"
  TELEGRAM_BOT_TOKEN :: "string option"
  TELEGRAM_CHAT_ID :: "string option"

section \<open>The hosting API client\<close>

text \<open>The decimal rendering of an integer in an f-string.\<close>

definition digit_char :: "nat \<Rightarrow> char" where
  "digit_char d = char_of (48 + d)"

function str_nat :: "nat \<Rightarrow> string" where
  "str_nat n = (if n < 10 then [digit_char n] else str_nat (n div 10) @ [digit_char (n mod 10)])"
  by pat_completeness auto
termination
  by (relation "measure (\<lambda>n. n)") auto

declare str_nat.simps [simp del]

definition str_int :: "int \<Rightarrow> string" where
  "str_int i = (if i < 0 then CHR ''-'' # str_nat (nat (- i)) else str_nat (nat i))"

record GitLabClient =
  url :: string
  headers_of :: headers

definition rstrip :: "char \<Rightarrow> string \<Rightarrow> string" where
  "rstrip c s = rev (dropWhile (\<lambda>x. x = c) (rev s))"

definition new_GitLabClient :: "string \<Rightarrow> string \<Rightarrow> GitLabClient" where
  "new_GitLabClient u token =
     \<lparr> url = rstrip CHR ''/'' u, headers_of = [(''PRIVATE-TOKEN'', token)] \<rparr>"

text \<open>
  \<^verbatim>\<open>_get\<close>: one request. The first argument is the world's answer at the type of body
  the caller reads.
\<close>

definition GitLabClient_get ::
  "(string \<Rightarrow> headers \<Rightarrow> params option \<Rightarrow> error + 'r) \<Rightarrow> GitLabClient \<Rightarrow> string \<Rightarrow>
   params option \<Rightarrow> event list \<times> (error + 'r)" where
  "GitLabClient_get requests_get self endpoint ps =
     (let u = url self @ ''/api/v4'' @ endpoint
      in ([HttpGet u ps], requests_get u (headers_of self) ps))"

text \<open>
  The \<^verbatim>\<open>while True\<close> loop of \<^verbatim>\<open>_get_all\<close>. It may run forever (a server that always
  returns a full page), so it is a partial function: \<open>None\<close> is not returning. The
  events so far are carried along.
\<close>

partial_function (option) get_all_loop ::
  "(string \<Rightarrow> headers \<Rightarrow> params option \<Rightarrow> error + 'a list) \<Rightarrow> GitLabClient \<Rightarrow> string \<Rightarrow>
   params \<Rightarrow> int \<Rightarrow> 'a list \<Rightarrow> event list \<Rightarrow> (event list \<times> (error + 'a list)) option" where
  "get_all_loop requests_get self endpoint ps page results evs =
     (let ps1 = AList.update ''page'' (PInt page) ps;
          got = GitLabClient_get requests_get self endpoint (Some ps1);
          evs1 = evs @ fst got
      in case snd got of
           Inl e \<Rightarrow> Some (evs1, Inl e)
         | Inr data \<Rightarrow>
             if data = [] then Some (evs1, Inr results)
             else (let results1 = results @ data
                   in if length data < 100 then Some (evs1, Inr results1)
                      else get_all_loop requests_get self endpoint ps1 (page + 1) results1 evs1))"

definition GitLabClient_get_all ::
  "(string \<Rightarrow> headers \<Rightarrow> params option \<Rightarrow> error + 'a list) \<Rightarrow> GitLabClient \<Rightarrow> string \<Rightarrow>
   params option \<Rightarrow> (event list \<times> (error + 'a list)) option" where
  "GitLabClient_get_all requests_get self endpoint ps =
     (let ps0 = (case ps of None \<Rightarrow> [] | Some d \<Rightarrow> d);
          ps1 = AList.update ''per_page'' (PInt 100) ps0
      in get_all_loop requests_get self endpoint ps1 1 [] [])"

definition get_group_projects ::
  "world \<Rightarrow> config \<Rightarrow> GitLabClient \<Rightarrow> string \<Rightarrow> (event list \<times> (error + project list)) option" where
  "get_group_projects w cfg self group_name =
     (case GitLabClient_get_all (get_projects w) self (''/groups/'' @ group_name @ ''/projects'')
             (Some [(''include_subgroups'', PStr ''true'')]) of
        None \<Rightarrow> None
      | Some (evs, Inl e) \<Rightarrow> Some (evs, Inl e)
      | Some (evs, Inr ps) \<Rightarrow>
          if PROJECT_PREFIXES cfg \<noteq> []
          then Some (evs, Inr (filter (\<lambda>p. list_ex (startswith (project_name p))
                                              (PROJECT_PREFIXES cfg)) ps))
          else Some (evs, Inr ps))"

definition get_project_commits ::
  "world \<Rightarrow> GitLabClient \<Rightarrow> int \<Rightarrow> string \<Rightarrow> string \<Rightarrow>
   (event list \<times> (error + commit list)) option" where
  "get_project_commits w self pid since until =
     GitLabClient_get_all (get_commits w) self
       (''/projects/'' @ str_int pid @ ''/repository/commits'')
       (Some [(''since'', PStr since), (''until'', PStr until), (''with_stats'', PStr ''true'')])"

definition get_commit_diff ::
  "world \<Rightarrow> GitLabClient \<Rightarrow> int \<Rightarrow> string \<Rightarrow> event list \<times> (error + file_diff list)" where
  "get_commit_diff w self pid commit_sha =
     GitLabClient_get (get_diffs w) self
       (''/projects/'' @ str_int pid @ ''/repository/commits/'' @ commit_sha @ ''/diff'') None"

section \<open>Diff analysis and collection\<close>

text \<open>\<^verbatim>\<open>d.get(key, "")\<close> on a file diff.\<close>

definition get_or_empty :: "jval option \<Rightarrow> jval" where
  "get_or_empty v = (case v of None \<Rightarrow> JStr [] | Some x \<Rightarrow> x)"

text \<open>
  The loop inside the \<^verbatim>\<open>try\<close> of \<^verbatim>\<open>analyze_commit_diff\<close>; it raises when a field it
  reads is not a string.
\<close>

fun analyze_loop :: "file_diff list \<Rightarrow> int \<Rightarrow> error + int" where
  "analyze_loop [] effective = Inr effective"
| "analyze_loop (d # rest) effective =
     (case get_or_empty (new_path d) of
        JOther \<Rightarrow> Inl AttributeError
      | JStr path \<Rightarrow>
          if endswith path ''.java''
          then (case get_or_empty (diff d) of
                  JOther \<Rightarrow> Inl AttributeError
                | JStr body \<Rightarrow> analyze_loop rest (effective + count_effective_lines body))
          else analyze_loop rest effective)"

text \<open>
  For stating what the loop computes: a line of a diff body that is counted, and what one
  file contributes when the two fields it reads are strings.
\<close>

definition counted_line :: "string \<Rightarrow> bool" where
  "counted_line l =
     (startswith l ''+'' \<and> \<not> startswith l ''+++'' \<and> is_effective_line (drop 1 l))"

definition is_str :: "jval \<Rightarrow> bool" where
  "is_str v = (case v of JStr _ \<Rightarrow> True | JOther \<Rightarrow> False)"

definition str_of :: "jval \<Rightarrow> string" where
  "str_of v = (case v of JStr x \<Rightarrow> x | JOther \<Rightarrow> [])"

definition string_fields :: "file_diff \<Rightarrow> bool" where
  "string_fields d = (is_str (get_or_empty (new_path d)) \<and> is_str (get_or_empty (diff d)))"

definition is_java :: "file_diff \<Rightarrow> bool" where
  "is_java d = endswith (str_of (get_or_empty (new_path d))) ''.java''"

definition file_contribution :: "file_diff \<Rightarrow> int" where
  "file_contribution d =
     (if is_java d
      then int (length (filter counted_line (split_lines (str_of (get_or_empty (diff d))))))
      else 0)"

text \<open>The body of the \<^verbatim>\<open>try\<close>: the request, then the loop.\<close>

definition analyze_try :: "world \<Rightarrow> GitLabClient \<Rightarrow> int \<Rightarrow> string \<Rightarrow> event list \<times> (error + int)" where
  "analyze_try w client pid commit_sha =
     (let got = get_commit_diff w client pid commit_sha
      in (fst got, case snd got of Inl e \<Rightarrow> Inl e | Inr file_diffs \<Rightarrow> analyze_loop file_diffs 0))"

definition analyze_commit_diff :: "world \<Rightarrow> GitLabClient \<Rightarrow> int \<Rightarrow> string \<Rightarrow> event list \<times> int" where
  "analyze_commit_diff w client pid commit_sha =
     (let tried = analyze_try w client pid commit_sha
      in case snd tried of
           Inr effective \<Rightarrow> (fst tried, effective)
         | Inl e \<Rightarrow> (fst tried @ [Print (AnalyzeWarning commit_sha e)], 0))"

text \<open>
  The developers dictionary, keyed by author email, in insertion order. One pass of the
  loop over the commits of a project: \<open>record_commit\<close> is what the pass does to the
  dictionary once the effective count is known. The aggregate is created at the first
  commit of an email and looked up afterwards; it is stored back under its key, which
  leaves the order of the dictionary as it is. \<open>commit_email\<close>, \<open>commit_name\<close>,
  \<open>commit_additions\<close> and \<open>commit_deletions\<close> are the four reads of the commit with
  their defaults (\<^verbatim>\<open>commit.get("author_email", "unknown")\<close>,
  \<^verbatim>\<open>commit.get("stats", {}).get("additions", 0)\<close>, and so on).
\<close>

type_synonym developers = "(string \<times> DeveloperStats) list"

definition commit_email :: "commit \<Rightarrow> string" where
  "commit_email c = (case author_email c of None \<Rightarrow> ''unknown'' | Some e \<Rightarrow> e)"

definition commit_name :: "commit \<Rightarrow> string" where
  "commit_name c = (case author_name c of None \<Rightarrow> ''Unknown'' | Some n \<Rightarrow> n)"

definition commit_additions :: "commit \<Rightarrow> int" where
  "commit_additions c =
     (case stats c of None \<Rightarrow> 0
      | Some st \<Rightarrow> (case json_additions st of None \<Rightarrow> 0 | Some n \<Rightarrow> n))"

definition commit_deletions :: "commit \<Rightarrow> int" where
  "commit_deletions c =
     (case stats c of None \<Rightarrow> 0
      | Some st \<Rightarrow> (case json_deletions st of None \<Rightarrow> 0 | Some n \<Rightarrow> n))"

definition record_commit :: "string \<Rightarrow> commit \<Rightarrow> int \<Rightarrow> developers \<Rightarrow> developers" where
  "record_commit pname c effective devs =
     (let dev = (case map_of devs (commit_email c) of
                   None \<Rightarrow> new_DeveloperStats (commit_name c) (commit_email c)
                 | Some d \<Rightarrow> d);
          dev1 = dev\<lparr> projects := insert pname (projects dev) \<rparr>;
          commit_stats =
            \<lparr> sha = take 8 (commit_id c),
              message = take 50 (case title c of None \<Rightarrow> [] | Some t \<Rightarrow> t),
              additions = commit_additions c, deletions = commit_deletions c,
              commit_effective_additions = effective, commit_files_changed = 0 \<rparr>;
          dev2 = dev1\<lparr> commits := commits dev1 @ [commit_stats],
                       total_additions := total_additions dev1 + commit_additions c,
                       total_deletions := total_deletions dev1 + commit_deletions c,
                       effective_additions := effective_additions dev1 + effective \<rparr>
      in AList.update (commit_email c) dev2 devs)"

definition collect_commit ::
  "world \<Rightarrow> GitLabClient \<Rightarrow> project \<Rightarrow> commit \<Rightarrow> developers \<Rightarrow> event list \<times> developers" where
  "collect_commit w client p c devs =
     (let analysed = analyze_commit_diff w client (project_id p) (commit_id c)
      in (fst analysed, record_commit (project_name p) c (snd analysed) devs))"

fun collect_commits ::
  "world \<Rightarrow> GitLabClient \<Rightarrow> project \<Rightarrow> commit list \<Rightarrow> developers \<Rightarrow> event list \<times> developers" where
  "collect_commits w client p [] devs = ([], devs)"
| "collect_commits w client p (c # rest) devs =
     (let one = collect_commit w client p c devs;
          more = collect_commits w client p rest (snd one)
      in (fst one @ fst more, snd more))"

text \<open>
  The loop over the projects. A failure to list the commits of a project is not caught
  here: it ends the loop.
\<close>

fun collect_projects ::
  "world \<Rightarrow> GitLabClient \<Rightarrow> string \<Rightarrow> string \<Rightarrow> project list \<Rightarrow> developers \<Rightarrow>
   (event list \<times> (error + developers)) option" where
  "collect_projects w client since until [] devs = Some ([], Inr devs)"
| "collect_projects w client since until (p # rest) devs =
     (let ev0 = [Print (AnalyzingProject (project_name p))]
      in case get_project_commits w client (project_id p) since until of
           None \<Rightarrow> None
         | Some (ev1, Inl e) \<Rightarrow> Some (ev0 @ ev1, Inl e)
         | Some (ev1, Inr cs) \<Rightarrow>
             (let ev2 = [Print (CommitsFound (length cs))];
                  done = collect_commits w client p cs devs
              in case collect_projects w client since until rest (snd done) of
                   None \<Rightarrow> None
                 | Some (ev3, r) \<Rightarrow> Some (ev0 @ ev1 @ ev2 @ fst done @ ev3, r)))"

definition collect_stats ::
  "world \<Rightarrow> config \<Rightarrow> GitLabClient \<Rightarrow> date \<Rightarrow> (event list \<times> (error + developers)) option" where
  "collect_stats w cfg client day =
     (let since = ymd_dashed day @ ''T00:00:00+08:00'';
          until = ymd_dashed day @ ''T23:59:59+08:00'';
          ev0 = [Print (TimeRange since until)]
      in case get_group_projects w cfg client (GITLAB_GROUP cfg) of
           None \<Rightarrow> None
         | Some (ev1, Inl e) \<Rightarrow> Some (ev0 @ ev1, Inl e)
         | Some (ev1, Inr ps) \<Rightarrow>
             (case collect_projects w client since until ps [] of
                None \<Rightarrow> None
              | Some (ev2, r) \<Rightarrow> Some (ev0 @ ev1 @ [Print (ProjectsFound (length ps))] @ ev2, r)))"

section \<open>Notifications\<close>

definition send_wecom :: "world \<Rightarrow> string \<Rightarrow> string \<Rightarrow> event list \<times> (error + unit)" where
  "send_wecom w webhook content =
     (let data = WecomMarkdown content
      in case post w webhook data of
           Inl e \<Rightarrow> ([HttpPost webhook data], Inl e)
         | Inr resp \<Rightarrow> ([HttpPost webhook data, Print (WecomResult (status_code resp))], Inr ()))"

definition send_dingtalk :: "world \<Rightarrow> string \<Rightarrow> string \<Rightarrow> event list \<times> (error + unit)" where
  "send_dingtalk w webhook content =
     (let data = DingtalkMarkdown content
      in case post w webhook data of
           Inl e \<Rightarrow> ([HttpPost webhook data], Inl e)
         | Inr resp \<Rightarrow> ([HttpPost webhook data, Print (DingtalkResult (status_code resp))], Inr ()))"

text \<open>
  The splitting loop of \<^verbatim>\<open>send_telegram\<close> over the lines, with the part being built
  (\<open>current\<close>) and the parts finished so far; it returns both.
\<close>

fun split_loop :: "nat \<Rightarrow> string list \<Rightarrow> string \<Rightarrow> string list \<Rightarrow> string list \<times> string" where
  "split_loop max_len [] current parts = (parts, current)"
| "split_loop max_len (line # rest) current parts =
     (if length current + length line + 1 > max_len
      then split_loop max_len rest line (parts @ [current])
      else split_loop max_len rest
             (if current \<noteq> [] then current @ [newline] @ line else line) parts)"

definition max_len :: nat where
  "max_len = 4000"

definition telegram_parts :: "string \<Rightarrow> string list" where
  "telegram_parts content =
     (if length content \<le> max_len then [content]
      else (let lines = split_lines content;
                looped = split_loop max_len lines [] [];
                parts = fst looped;
                current = snd looped
            in if current \<noteq> [] then parts @ [current] else parts))"

text \<open>The sending loop over \<^verbatim>\<open>enumerate(parts)\<close>; \<open>i\<close> is the index of the next part.\<close>

fun send_parts ::
  "world \<Rightarrow> string \<Rightarrow> string \<Rightarrow> nat \<Rightarrow> nat \<Rightarrow> string list \<Rightarrow> event list \<times> (error + unit)" where
  "send_parts w u chat_id n_parts i [] = ([], Inr ())"
| "send_parts w u chat_id n_parts i (part # rest) =
     (let data = TelegramMessage chat_id part
      in case post w u data of
           Inl e \<Rightarrow> ([HttpPost u data], Inl e)
         | Inr resp \<Rightarrow>
             (let ev = [HttpPost u data,
                        Print (if status_code resp = 200 then TelegramSent (i + 1) n_parts
                               else TelegramFailed (status_code resp) (text_of resp))];
                  more = send_parts w u chat_id n_parts (i + 1) rest
              in (ev @ fst more, snd more)))"

definition send_telegram :: "world \<Rightarrow> string \<Rightarrow> string \<Rightarrow> string \<Rightarrow> event list \<times> (error + unit)" where
  "send_telegram w bot_token chat_id content =
     (let u = ''https://api.telegram.org/bot'' @ bot_token @ ''/sendMessage'';
          parts = telegram_parts content
      in send_parts w u chat_id (length parts) 0 parts)"

section \<open>The entry point\<close>

text \<open>A value of \<^verbatim>\<open>os.getenv\<close> used as a condition: set and not empty.\<close>

definition env_set :: "string option \<Rightarrow> bool" where
  "env_set v = (case v of None \<Rightarrow> False | Some x \<Rightarrow> x \<noteq> [])"

definition env_value :: "string option \<Rightarrow> string" where
  "env_value v = (case v of None \<Rightarrow> [] | Some x \<Rightarrow> x)"

definition path_join :: "string \<Rightarrow> string \<Rightarrow> string" where
  "path_join d f = (if d = [] \<or> endswith d ''/'' then d @ f else d @ ''/'' @ f)"

text \<open>
  The three notifications at the end of the \<^verbatim>\<open>try\<close> block of \<^verbatim>\<open>main\<close>, one after the
  other; an exception raised by one leaves the block.
\<close>

definition notify :: "world \<Rightarrow> config \<Rightarrow> string \<Rightarrow> event list \<times> (error + unit)" where
  "notify w cfg md_report =
     (let r1 = (if env_set (WECOM_WEBHOOK cfg)
                then send_wecom w (env_value (WECOM_WEBHOOK cfg)) md_report
                else ([], Inr ()))
      in case snd r1 of
           Inl e \<Rightarrow> (fst r1, Inl e)
         | Inr _ \<Rightarrow>
             (let r2 = (if env_set (DINGTALK_WEBHOOK cfg)
                        then send_dingtalk w (env_value (DINGTALK_WEBHOOK cfg)) md_report
                        else ([], Inr ()))
              in case snd r2 of
                   Inl e \<Rightarrow> (fst r1 @ fst r2, Inl e)
                 | Inr _ \<Rightarrow>
                     (let r3 = (if env_set (TELEGRAM_BOT_TOKEN cfg) \<and> env_set (TELEGRAM_CHAT_ID cfg)
                                then send_telegram w (env_value (TELEGRAM_BOT_TOKEN cfg))
                                       (env_value (TELEGRAM_CHAT_ID cfg)) md_report
                                else ([], Inr ()))
                      in (fst r1 @ fst r2 @ fst r3, snd r3))))"

text \<open>
  The \<^verbatim>\<open>try\<close> block of \<^verbatim>\<open>main\<close>: its events and the exit code it returns, or the
  exception that leaves it. The two report renderers are string templating over the
  aggregates; the block is modelled for any pair of them.
\<close>

definition main_try ::
  "world \<Rightarrow> config \<Rightarrow> (developers \<Rightarrow> date \<Rightarrow> string) \<Rightarrow> (developers \<Rightarrow> date \<Rightarrow> string) \<Rightarrow> date \<Rightarrow>
   (event list \<times> (error + int)) option" where
  "main_try w cfg generate_report generate_markdown_report yesterday =
     (let client = new_GitLabClient (GITLAB_URL cfg) (GITLAB_TOKEN cfg)
      in case collect_stats w cfg client yesterday of
           None \<Rightarrow> None
         | Some (ev1, Inl e) \<Rightarrow> Some (ev1, Inl e)
         | Some (ev1, Inr stats_map) \<Rightarrow>
             if stats_map = [] then Some (ev1 @ [Print NoCommits], Inr 0)
             else (let text_report = generate_report stats_map yesterday;
                       md_report = generate_markdown_report stats_map yesterday;
                       ev2 = [Print (TextReport text_report)];
                       report_file = path_join (report_dir w)
                                       (''report_'' @ ymd_compact yesterday @ ''.md'')
                   in case write_file w report_file md_report of
                        Inl e \<Rightarrow> Some (ev1 @ ev2, Inl e)
                      | Inr _ \<Rightarrow>
                          (let ev3 = [FileWrite report_file md_report,
                                      Print (ReportSaved report_file)];
                               sent = notify w cfg md_report
                           in case snd sent of
                                Inl e \<Rightarrow> Some (ev1 @ ev2 @ ev3 @ fst sent, Inl e)
                              | Inr _ \<Rightarrow> Some (ev1 @ ev2 @ ev3 @ fst sent, Inr 0))))"

text \<open>\<^verbatim>\<open>main\<close>: the events and the exit code; \<open>None\<close> is not returning.\<close>

definition main ::
  "world \<Rightarrow> config \<Rightarrow> (developers \<Rightarrow> date \<Rightarrow> string) \<Rightarrow> (developers \<Rightarrow> date \<Rightarrow> string) \<Rightarrow>
   (event list \<times> int) option" where
  "main w cfg generate_report generate_markdown_report =
     (if GITLAB_URL cfg = [] then Some ([Print MissingUrl], 1)
      else if GITLAB_TOKEN cfg = [] then Some ([Print MissingToken], 1)
      else if GITLAB_GROUP cfg = [] then Some ([Print MissingGroup], 1)
      else (let yesterday = clock_yesterday w;
                ev0 = [Print Banner, Print (StatsDate (ymd_dashed yesterday)), Print EmptyLine]
            in case main_try w cfg generate_report generate_markdown_report yesterday of
                 None \<Rightarrow> None
               | Some (ev1, Inr code) \<Rightarrow> Some (ev0 @ ev1, code)
               | Some (ev1, Inl e) \<Rightarrow>
                   Some (ev0 @ ev1 @ [Print (StatsFailed e), Print (Traceback e)], 1)))"

section \<open>Example inputs\<close>

text \<open>
  A world whose answers do not depend on the request, a client, and the file diffs of a
  commit: the inputs at which the theorems below are instantiated.
\<close>

definition constant_world ::
  "(error + project list) \<Rightarrow> (error + commit list) \<Rightarrow> (error + file_diff list) \<Rightarrow>
   (string \<Rightarrow> payload \<Rightarrow> error + response) \<Rightarrow> world" where
  "constant_world ps cs ds answer =
     \<lparr> get_projects = (\<lambda>u h q. ps), get_commits = (\<lambda>u h q. cs), get_diffs = (\<lambda>u h q. ds),
       post = answer, write_file = (\<lambda>path content. Inr ()), report_dir = ''/opt/metrics'',
       clock_yesterday = \<lparr> ymd_dashed = ''2024-05-01'', ymd_compact = ''20240501'' \<rparr> \<rparr>"

definition example_client :: GitLabClient where
  "example_client = new_GitLabClient ''https://gitlab.example.com/'' ''secret''"

definition example_diffs :: "file_diff list" where
  "example_diffs =
     [ \<lparr> new_path = Some (JStr ''src/A.java''),
         diff = Some (JStr (''+++ b/src/A.java'' @ [newline] @ ''+int x = 1;'' @ [newline] @
                            ''+'' @ [newline] @ ''-int y;'' @ [newline] @ ''+  // note'')) \<rparr>,
       \<lparr> new_path = Some (JStr ''README.md''), diff = Some (JStr ''+more text'') \<rparr> ]"

text \<open>
  For stating what the pagination loop does: the parameters of the request for page \<open>k\<close>
  when the dictionary is \<open>ps\<close>, the dictionary \<^verbatim>\<open>_get_all\<close> starts from, and the items
  of a page that was answered.
\<close>

definition page_params :: "params \<Rightarrow> int \<Rightarrow> params" where
  "page_params ps k = AList.update ''page'' (PInt k) ps"

definition per_page_params :: "params option \<Rightarrow> params" where
  "per_page_params ps = AList.update ''per_page'' (PInt 100) (case ps of None \<Rightarrow> [] | Some d \<Rightarrow> d)"

definition page_data :: "error + 'a list \<Rightarrow> 'a list" where
  "page_data r = (case r of Inl e \<Rightarrow> [] | Inr d \<Rightarrow> d)"

text \<open>
  A listing endpoint with three pages of 100, 100 and 37 items, told apart by the
  \<^verbatim>\<open>page\<close> parameter of the request.
\<close>

definition three_pages :: "string \<Rightarrow> headers \<Rightarrow> params option \<Rightarrow> error + nat list" where
  "three_pages u h q =
     (case q of
        None \<Rightarrow> Inl (HTTPError 400)
      | Some ps \<Rightarrow>
          (case map_of ps ''page'' of
             Some (PInt k) \<Rightarrow>
               if k = 1 then Inr (replicate 100 1)
               else if k = 2 then Inr (replicate 100 2)
               else if k = 3 then Inr (replicate 37 3)
               else Inr []
           | _ \<Rightarrow> Inl (HTTPError 400)))"

text \<open>A project, three commits of one author email, and a configuration.\<close>

definition example_project :: project where
  "example_project = \<lparr> project_id = 7, project_name = ''app-core'' \<rparr>"

definition commit_ann :: commit where
  "commit_ann =
     \<lparr> commit_id = ''0123456789abcdef'', author_email = Some ''ann@example.com'',
       author_name = Some ''Ann'',
       stats = Some \<lparr> json_additions = Some 3, json_deletions = Some 1 \<rparr>,
       title = Some ''Add A'' \<rparr>"

definition commit_anna :: commit where
  "commit_anna =
     \<lparr> commit_id = ''fedcba9876543210'', author_email = Some ''ann@example.com'',
       author_name = Some ''Anna'',
       stats = Some \<lparr> json_additions = Some 5, json_deletions = Some 0 \<rparr>,
       title = Some ''Fix A'' \<rparr>"

definition commit_no_stats :: commit where
  "commit_no_stats =
     \<lparr> commit_id = ''00112233445566778899'', author_email = Some ''ann@example.com'',
       author_name = Some ''Ann'', stats = None, title = Some ''Add A'' \<rparr>"

definition example_config :: config where
  "example_config =
     \<lparr> GITLAB_URL = ''https://gitlab.example.com/'', GITLAB_TOKEN = ''secret'',
       GITLAB_GROUP = ''dev'', PROJECT_PREFIXES = [],
       WECOM_WEBHOOK = Some ''https://wecom.example.com/hook'',
       DINGTALK_WEBHOOK = Some ''https://dingtalk.example.com/hook'',
       TELEGRAM_BOT_TOKEN = None, TELEGRAM_CHAT_ID = None \<rparr>"

definition example_day :: date where
  "example_day = \<lparr> ymd_dashed = ''2024-05-01'', ymd_compact = ''20240501'' \<rparr>"

text \<open>
  Reading a result of \<open>collect_stats\<close>: the dictionary it returned (empty when it
  raised or did not return), and of each aggregate the key, the name, the effective and
  the total additions.
\<close>

definition collected :: "(event list \<times> (error + developers)) option \<Rightarrow> developers" where
  "collected r = (case r of Some (evs, Inr devs) \<Rightarrow> devs | _ \<Rightarrow> [])"

definition summary :: "developers \<Rightarrow> (string \<times> string \<times> int \<times> int) list" where
  "summary devs =
     map (\<lambda>kd. (fst kd, name (snd kd), effective_additions (snd kd), total_additions (snd kd))) devs"

text \<open>
  For stating when the effective additions stay below the total: every commit that the
  API lists on the day has at least as many additions in its statistics as its diff has
  effective added lines.
\<close>

definition additions_cover_effective :: "world \<Rightarrow> config \<Rightarrow> GitLabClient \<Rightarrow> date \<Rightarrow> bool" where
  "additions_cover_effective w cfg client day =
     (case get_group_projects w cfg client (GITLAB_GROUP cfg) of
        Some (ev1, Inr ps) \<Rightarrow>
          list_all
            (\<lambda>p. case get_project_commits w client (project_id p)
                         (ymd_dashed day @ ''T00:00:00+08:00'')
                         (ymd_dashed day @ ''T23:59:59+08:00'') of
                    Some (ev2, Inr cs) \<Rightarrow>
                      list_all
                        (\<lambda>c. snd (analyze_commit_diff w client (project_id p) (commit_id c))
                              \<le> commit_additions c) cs
                  | _ \<Rightarrow> True) ps
      | _ \<Rightarrow> True)"

text \<open>The two bounds on every aggregate of a dictionary.\<close>

definition inv_lo :: "developers \<Rightarrow> bool" where
  "inv_lo devs = (\<forall>kd\<in>set devs. 0 \<le> effective_additions (snd kd))"

definition inv_hi :: "developers \<Rightarrow> bool" where
  "inv_hi devs = (\<forall>kd\<in>set devs. effective_additions (snd kd) \<le> total_additions (snd kd))"

text \<open>The display name of the aggregate kept under an email, if there is one.\<close>

definition name_of :: "developers \<Rightarrow> string \<Rightarrow> string option" where
  "name_of devs e = map_option name (map_of devs e)"

text \<open>The aggregate of the example author after the first commit, and after both.\<close>

definition ann_after_one :: DeveloperStats where
  "ann_after_one =
     \<lparr> name = ''Ann'', email = ''ann@example.com'',
       commits = [\<lparr> sha = ''01234567'', message = ''Add A'', additions = 3, deletions = 1,
                    commit_effective_additions = 0, commit_files_changed = 0 \<rparr>],
       total_additions = 3, total_deletions = 1, effective_additions = 0, files_changed = 0,
       projects = {''app-core''} \<rparr>"

definition ann_after_two :: DeveloperStats where
  "ann_after_two =
     \<lparr> name = ''Ann'', email = ''ann@example.com'',
       commits = [\<lparr> sha = ''01234567'', message = ''Add A'', additions = 3, deletions = 1,
                    commit_effective_additions = 0, commit_files_changed = 0 \<rparr>,
                  \<lparr> sha = ''fedcba98'', message = ''Fix A'', additions = 5, deletions = 0,
                    commit_effective_additions = 0, commit_files_changed = 0 \<rparr>],
       total_additions = 8, total_deletions = 1, effective_additions = 0, files_changed = 0,
       projects = {''app-core''} \<rparr>"

text \<open>
  The address of the bot, the two renderers of the examples, and a world in which one
  project has one commit.
\<close>

definition telegram_url :: "string \<Rightarrow> string" where
  "telegram_url bot_token = ''https://api.telegram.org/bot'' @ bot_token @ ''/sendMessage''"

definition example_text_report :: "developers \<Rightarrow> date \<Rightarrow> string" where
  "example_text_report devs day = ''report''"

definition example_md_report :: "developers \<Rightarrow> date \<Rightarrow> string" where
  "example_md_report devs day = ''# report''"

definition one_commit_world :: "(string \<Rightarrow> payload \<Rightarrow> error + response) \<Rightarrow> world" where
  "one_commit_world answer =
     constant_world (Inr [example_project]) (Inr [commit_ann]) (Inr []) answer"

definition all_channels_config :: config where
  "all_channels_config =
     example_config \<lparr> TELEGRAM_BOT_TOKEN := Some ''123:abc'', TELEGRAM_CHAT_ID := Some ''-100'' \<rparr>"

definition answer_500 :: "string \<Rightarrow> payload \<Rightarrow> response" where
  "answer_500 u data = \<lparr> status_code = 500, text_of = ''Internal Server Error'' \<rparr>"

text \<open>
  A message shaped like the report: two lines that fill a part to the cap (a table), an
  empty line, and a last line (a heading); 4003 characters.
\<close>

definition boundary_blank_message :: string where
  "boundary_blank_message =
     replicate 2000 CHR ''a'' @ newline # replicate 1999 CHR ''b'' @ newline # newline # ''c''"

text \<open>
  For stating what the notifications do when every request is answered by \<open>answer\<close>:
  the events of each channel. A webhook sends its request and prints the status of the
  answer; the bot sends every part in turn and prints, for the part of index \<open>i\<close>,
  that it was sent (status 200) or that it failed (any other status, with the text of
  the answer). A channel that is not configured does nothing.
\<close>

definition wecom_events :: "(string \<Rightarrow> payload \<Rightarrow> response) \<Rightarrow> config \<Rightarrow> string \<Rightarrow> event list" where
  "wecom_events answer cfg md =
     (if env_set (WECOM_WEBHOOK cfg)
      then [HttpPost (env_value (WECOM_WEBHOOK cfg)) (WecomMarkdown md),
            Print (WecomResult
                     (status_code (answer (env_value (WECOM_WEBHOOK cfg)) (WecomMarkdown md))))]
      else [])"

definition dingtalk_events :: "(string \<Rightarrow> payload \<Rightarrow> response) \<Rightarrow> config \<Rightarrow> string \<Rightarrow> event list" where
  "dingtalk_events answer cfg md =
     (if env_set (DINGTALK_WEBHOOK cfg)
      then [HttpPost (env_value (DINGTALK_WEBHOOK cfg)) (DingtalkMarkdown md),
            Print (DingtalkResult
                     (status_code (answer (env_value (DINGTALK_WEBHOOK cfg)) (DingtalkMarkdown md))))]
      else [])"

definition telegram_part_events ::
  "(string \<Rightarrow> payload \<Rightarrow> response) \<Rightarrow> string \<Rightarrow> string \<Rightarrow> nat \<Rightarrow> nat \<times> string \<Rightarrow> event list" where
  "telegram_part_events answer u chat_id n_parts ip =
     [HttpPost u (TelegramMessage chat_id (snd ip)),
      Print (if status_code (answer u (TelegramMessage chat_id (snd ip))) = 200
             then TelegramSent (fst ip + 1) n_parts
             else TelegramFailed (status_code (answer u (TelegramMessage chat_id (snd ip))))
                    (text_of (answer u (TelegramMessage chat_id (snd ip)))))]"

definition telegram_log ::
  "(string \<Rightarrow> payload \<Rightarrow> response) \<Rightarrow> string \<Rightarrow> string \<Rightarrow> string list \<Rightarrow> event list" where
  "telegram_log answer u chat_id parts =
     concat (map (telegram_part_events answer u chat_id (length parts))
               (zip [0..<length parts] parts))"

definition telegram_events :: "(string \<Rightarrow> payload \<Rightarrow> response) \<Rightarrow> config \<Rightarrow> string \<Rightarrow> event list" where
  "telegram_events answer cfg md =
     (if env_set (TELEGRAM_BOT_TOKEN cfg) \<and> env_set (TELEGRAM_CHAT_ID cfg)
      then telegram_log answer (telegram_url (env_value (TELEGRAM_BOT_TOKEN cfg)))
             (env_value (TELEGRAM_CHAT_ID cfg)) (telegram_parts md)
      else [])"

text \<open>
  A run of \<open>main\<close> gets as far as the notifications: the configuration is complete, the
  collection returned the non-empty dictionary \<open>devs\<close>, and the report file was written.
\<close>

definition reaches_notifications ::
  "world \<Rightarrow> config \<Rightarrow> (developers \<Rightarrow> date \<Rightarrow> string) \<Rightarrow> developers \<Rightarrow> bool" where
  "reaches_notifications w cfg gen_md devs =
     (GITLAB_URL cfg \<noteq> [] \<and> GITLAB_TOKEN cfg \<noteq> [] \<and> GITLAB_GROUP cfg \<noteq> [] \<and>
      collected (collect_stats w cfg (new_GitLabClient (GITLAB_URL cfg) (GITLAB_TOKEN cfg))
                   (clock_yesterday w)) = devs \<and>
      devs \<noteq> [] \<and>
      write_file w (path_join (report_dir w)
                      (''report_'' @ ymd_compact (clock_yesterday w) @ ''.md''))
        (gen_md devs (clock_yesterday w)) = Inr ())"

text \<open>
  Three ways for a request to raise: every request, every request but the one to the
  first webhook, and the requests of the bot only.
\<close>

definition all_down :: "string \<Rightarrow> payload \<Rightarrow> error + response" where
  "all_down u data = Inl (RequestException ''timed out'')"

definition dingtalk_down :: "string \<Rightarrow> payload \<Rightarrow> error + response" where
  "dingtalk_down u data =
     (case data of
        WecomMarkdown x \<Rightarrow> Inr (answer_500 u data)
      | _ \<Rightarrow> Inl (RequestException ''timed out''))"

definition telegram_down :: "string \<Rightarrow> payload \<Rightarrow> error + response" where
  "telegram_down u data =
     (case data of
        TelegramMessage c x \<Rightarrow> Inl (RequestException ''timed out'')
      | _ \<Rightarrow> Inr (answer_500 u data))"

section \<open>Standards evaluation\<close>

lemma effective_ratio_total: "\<exists>r. effective_ratio d = Inr r"
  by (simp add: effective_ratio_def truediv_def)

text \<open>
  Claim C10: for every developer aggregate with \<open>total_additions = 0\<close> the accessor
  \<open>effective_ratio\<close> returns exactly 0 and raises nothing; on every aggregate it returns
  a number, never \<open>ZeroDivisionError\<close>.
\<close>

theorem effective_ratio_zero_total:
  "(total_additions d = 0 \<longrightarrow> effective_ratio d = Inr 0) \<and>
   (\<exists>r. effective_ratio d = Inr r) \<and> effective_ratio d \<noteq> Inl ZeroDivisionError"
  by (simp add: effective_ratio_def truediv_def)

theorem effective_ratio_zero_total_witness:
  "effective_ratio (new_DeveloperStats ''Ann'' ''ann@example.com'') = Inr 0"
  using effective_ratio_zero_total [of "new_DeveloperStats ''Ann'' ''ann@example.com''"]
  by (simp add: new_DeveloperStats_def)

text \<open>
  Claim C4: an aggregate with 80 effective additions, 2 commits and 100 total additions
  passes with no issue; one with 50 effective additions, 1 commit and 200 total additions
  fails with exactly three issues (lines, commits, ratio); and the evaluation always
  returns, with \<open>passed\<close> true exactly when the issue list is empty.
\<close>

theorem meets_standard_examples:
  "(effective_additions d = 80 \<and> length (commits d) = 2 \<and> total_additions d = 100
      \<longrightarrow> meets_standard d = Inr (True, [])) \<and>
   (effective_additions d = 50 \<and> length (commits d) = 1 \<and> total_additions d = 200
      \<longrightarrow> meets_standard d =
            Inr (False, [LinesBelow 50 80, CommitsBelow 1 2, RatioBelow (1 / 4) (6 / 10)])) \<and>
   (\<exists>passed issues. meets_standard d = Inr (passed, issues) \<and> (passed \<longleftrightarrow> issues = []))"
  by (simp add: meets_standard_def effective_ratio_def truediv_def commit_count_def
      min_effective_lines_def min_commits_def effective_ratio_threshold_def Let_def)

theorem meets_standard_examples_witness:
  "meets_standard
     \<lparr> name = ''Ann'', email = ''ann@example.com'',
       commits = [\<lparr> sha = ''0a1b2c3d'', message = ''one'', additions = 60, deletions = 0,
                    commit_effective_additions = 50, commit_files_changed = 0 \<rparr>,
                  \<lparr> sha = ''4e5f6a7b'', message = ''two'', additions = 40, deletions = 0,
                    commit_effective_additions = 30, commit_files_changed = 0 \<rparr>],
       total_additions = 100, total_deletions = 0, effective_additions = 80,
       files_changed = 0, projects = {''app''} \<rparr> = Inr (True, []) \<and>
   meets_standard
     \<lparr> name = ''Bob'', email = ''bob@example.com'',
       commits = [\<lparr> sha = ''0a1b2c3d'', message = ''one'', additions = 200, deletions = 0,
                    commit_effective_additions = 50, commit_files_changed = 0 \<rparr>],
       total_additions = 200, total_deletions = 0, effective_additions = 50,
       files_changed = 0, projects = {''app''} \<rparr> =
     Inr (False, [LinesBelow 50 80, CommitsBelow 1 2, RatioBelow (1 / 4) (6 / 10)])"
  using
    meets_standard_examples [of
      "\<lparr> name = ''Ann'', email = ''ann@example.com'',
         commits = [\<lparr> sha = ''0a1b2c3d'', message = ''one'', additions = 60, deletions = 0,
                      commit_effective_additions = 50, commit_files_changed = 0 \<rparr>,
                    \<lparr> sha = ''4e5f6a7b'', message = ''two'', additions = 40, deletions = 0,
                      commit_effective_additions = 30, commit_files_changed = 0 \<rparr>],
         total_additions = 100, total_deletions = 0, effective_additions = 80,
         files_changed = 0, projects = {''app''} \<rparr>"]
    meets_standard_examples [of
      "\<lparr> name = ''Bob'', email = ''bob@example.com'',
         commits = [\<lparr> sha = ''0a1b2c3d'', message = ''one'', additions = 200, deletions = 0,
                      commit_effective_additions = 50, commit_files_changed = 0 \<rparr>],
         total_additions = 200, total_deletions = 0, effective_additions = 50,
         files_changed = 0, projects = {''app''} \<rparr>"]
  by simp

section \<open>Effective additions of a commit\<close>

lemma count_effective_loop_filter:
  "count_effective_loop ls n = n + int (length (filter counted_line ls))"
  by (induction ls arbitrary: n) (simp_all add: counted_line_def Let_def)

lemma count_effective_lines_filter:
  "count_effective_lines body = int (length (filter counted_line (split_lines body)))"
  by (simp add: count_effective_lines_def count_effective_loop_filter)

lemma analyze_loop_sum:
  "list_all string_fields ds \<Longrightarrow>
   analyze_loop ds n = Inr (n + sum_list (map file_contribution ds))"
proof (induction ds arbitrary: n)
  case Nil
  then show ?case by simp
next
  case (Cons d ds)
  then show ?case
    by (cases "get_or_empty (new_path d)"; cases "get_or_empty (diff d)")
       (simp_all add: string_fields_def is_str_def str_of_def file_contribution_def is_java_def
          count_effective_lines_filter)
qed

lemma sum_no_java:
  "\<forall>d\<in>set ds. \<not> is_java d \<Longrightarrow> sum_list (map file_contribution ds) = 0"
  by (induction ds) (simp_all add: file_contribution_def)

text \<open>
  Claim C3: when the diff of a commit is retrieved and the fields read are strings, the
  effective additions of the commit are the sum over its files of \<open>file_contribution\<close>:
  a file whose new path does not end with \<^verbatim>\<open>.java\<close> contributes 0, and a Java file
  contributes the number of lines of its diff body that begin with \<^verbatim>\<open>+\<close> but not
  \<^verbatim>\<open>+++\<close> and whose remainder after the \<^verbatim>\<open>+\<close> is classified effective. With no Java
  file the count is exactly 0.
\<close>

theorem analyze_commit_diff_java_only:
  assumes "snd (get_commit_diff w client pid commit_sha) = Inr ds"
    and "list_all string_fields ds"
  shows "snd (analyze_commit_diff w client pid commit_sha) = sum_list (map file_contribution ds) \<and>
         ((\<forall>d\<in>set ds. \<not> is_java d) \<longrightarrow> snd (analyze_commit_diff w client pid commit_sha) = 0)"
  using assms
  by (simp add: analyze_commit_diff_def analyze_try_def Let_def analyze_loop_sum sum_no_java)

theorem analyze_commit_diff_java_only_witness:
  "list_all string_fields example_diffs \<and>
   snd (analyze_commit_diff
          (constant_world (Inr []) (Inr []) (Inr example_diffs)
             (\<lambda>u d. Inl (RequestException ''down'')))
          example_client 7 ''0123456789abcdef'') = 1"
  using analyze_commit_diff_java_only [of
          "constant_world (Inr []) (Inr []) (Inr example_diffs)
             (\<lambda>u d. Inl (RequestException ''down''))"
          example_client 7 "''0123456789abcdef''" example_diffs]
  by (simp add: get_commit_diff_def GitLabClient_get_def constant_world_def example_diffs_def
      string_fields_def is_str_def str_of_def get_or_empty_def file_contribution_def is_java_def
      endswith_def counted_line_def startswith_def newline_def
      is_effective_line_def EXCLUDE_PATTERNS_def re_match_def lit_def isspace_def isword_def)

section \<open>Pagination\<close>

lemma page_params_again: "page_params (page_params ps j) k = page_params ps k"
  by (simp add: page_params_def)

lemma get_all_loop_error:
  "requests_get (url self @ ''/api/v4'' @ ep) (headers_of self) (Some (page_params ps page)) = Inl e \<Longrightarrow>
   get_all_loop requests_get self ep ps page results evs =
     Some (evs @ [HttpGet (url self @ ''/api/v4'' @ ep) (Some (page_params ps page))], Inl e)"
  by (subst get_all_loop.simps) (simp add: GitLabClient_get_def Let_def page_params_def)

lemma get_all_loop_short:
  "requests_get (url self @ ''/api/v4'' @ ep) (headers_of self) (Some (page_params ps page)) = Inr d \<Longrightarrow>
   length d < 100 \<Longrightarrow>
   get_all_loop requests_get self ep ps page results evs =
     Some (evs @ [HttpGet (url self @ ''/api/v4'' @ ep) (Some (page_params ps page))], Inr (results @ d))"
  by (subst get_all_loop.simps) (simp add: GitLabClient_get_def Let_def page_params_def)

lemma get_all_loop_full:
  "requests_get (url self @ ''/api/v4'' @ ep) (headers_of self) (Some (page_params ps page)) = Inr d \<Longrightarrow>
   100 \<le> length d \<Longrightarrow>
   get_all_loop requests_get self ep ps page results evs =
     get_all_loop requests_get self ep (page_params ps page) (page + 1) (results @ d)
       (evs @ [HttpGet (url self @ ''/api/v4'' @ ep) (Some (page_params ps page))])"
  by (subst get_all_loop.simps) (auto simp add: GitLabClient_get_def Let_def page_params_def)

lemma get_all_loop_pages:
  assumes "\<forall>i<n. \<exists>d. requests_get (url self @ ''/api/v4'' @ ep) (headers_of self)
                        (Some (page_params ps (page + int i))) = Inr d \<and> 100 \<le> length d"
    and "requests_get (url self @ ''/api/v4'' @ ep) (headers_of self)
           (Some (page_params ps (page + int n))) = Inr dl"
    and "length dl < 100"
  shows "get_all_loop requests_get self ep ps page results evs =
           Some (evs @ map (\<lambda>i. HttpGet (url self @ ''/api/v4'' @ ep)
                                  (Some (page_params ps (page + int i)))) [0..<Suc n],
                 Inr (results @
                      concat (map (\<lambda>i. page_data (requests_get (url self @ ''/api/v4'' @ ep)
                                           (headers_of self) (Some (page_params ps (page + int i)))))
                                [0..<n]) @ dl))"
  using assms
proof (induction n arbitrary: page results evs ps)
  case 0
  then show ?case by (simp add: get_all_loop_short)
next
  case (Suc n)
  let ?u = "url self @ ''/api/v4'' @ ep"
  from Suc.prems(1) obtain d where d: "requests_get ?u (headers_of self) (Some (page_params ps page)) = Inr d"
    "100 \<le> length d"
    by force
  have shift: "page + 1 + int i = page + int (Suc i)" for i by simp
  have full: "\<forall>i<n. \<exists>d. requests_get ?u (headers_of self)
                        (Some (page_params (page_params ps page) (page + 1 + int i))) = Inr d \<and> 100 \<le> length d"
    using Suc.prems(1) unfolding page_params_again shift by auto
  have last: "requests_get ?u (headers_of self)
           (Some (page_params (page_params ps page) (page + 1 + int n))) = Inr dl"
    using Suc.prems(2) unfolding page_params_again shift by simp
  have "get_all_loop requests_get self ep ps page results evs =
     get_all_loop requests_get self ep (page_params ps page) (page + 1) (results @ d)
       (evs @ [HttpGet ?u (Some (page_params ps page))])"
    by (rule get_all_loop_full) (rule d)+
  also have "\<dots> = Some ((evs @ [HttpGet ?u (Some (page_params ps page))]) @
        map (\<lambda>i. HttpGet ?u (Some (page_params (page_params ps page) (page + 1 + int i)))) [0..<Suc n],
       Inr ((results @ d) @
            concat (map (\<lambda>i. page_data (requests_get ?u (headers_of self)
                       (Some (page_params (page_params ps page) (page + 1 + int i))))) [0..<n]) @ dl))"
    by (rule Suc.IH [OF full last Suc.prems(3)])
  also have "\<dots> = Some (evs @ map (\<lambda>i. HttpGet ?u (Some (page_params ps (page + int i)))) [0..<Suc (Suc n)],
                 Inr (results @
                      concat (map (\<lambda>i. page_data (requests_get ?u
                                           (headers_of self) (Some (page_params ps (page + int i)))))
                                [0..<Suc n]) @ dl))"
    unfolding page_params_again shift using d(1)
    by (simp only: map_upt_Suc [of _ "Suc n"] map_upt_Suc [of _ "n"]) (simp add: page_data_def)
  finally show ?case .
qed


lemma get_all_pages:
  assumes "\<forall>i<n. \<exists>d. requests_get (url self @ ''/api/v4'' @ ep) (headers_of self)
                        (Some (page_params (per_page_params ps) (1 + int i))) = Inr d \<and> 100 \<le> length d"
    and "requests_get (url self @ ''/api/v4'' @ ep) (headers_of self)
           (Some (page_params (per_page_params ps) (1 + int n))) = Inr dl"
    and "length dl < 100"
  shows "GitLabClient_get_all requests_get self ep ps =
           Some (map (\<lambda>i. HttpGet (url self @ ''/api/v4'' @ ep)
                                  (Some (page_params (per_page_params ps) (1 + int i)))) [0..<Suc n],
                 Inr (concat (map (\<lambda>i. page_data (requests_get (url self @ ''/api/v4'' @ ep)
                                           (headers_of self) (Some (page_params (per_page_params ps) (1 + int i)))))
                                [0..<n]) @ dl))"
  unfolding GitLabClient_get_all_def Let_def per_page_params_def [symmetric]
  using assms
    get_all_loop_pages [where requests_get = requests_get and self = self and ep = ep and
      ps = "per_page_params ps" and page = 1 and n = n and dl = dl and results = "[]" and evs = "[]"]
  by simp

text \<open>
  Claim C8: the loop of \<open>GitLabClient_get_all\<close> asks for the pages 1, 2, ... with
  \<^verbatim>\<open>per_page\<close> 100 and returns at the first page of fewer than 100 items (an empty one
  included), with the items of all the pages it asked for, in order: if the pages
  \<open>1 .. n\<close> hold at least 100 items each and page \<open>n + 1\<close> fewer, it returns after
  exactly \<open>n + 1\<close> requests. In particular, pages of 100, 100 and 37 items give the 237
  items after exactly three requests.
\<close>

theorem get_all_pagination:
  "((\<forall>i<n. \<exists>d. requests_get (url self @ ''/api/v4'' @ ep) (headers_of self)
                   (Some (page_params (per_page_params ps) (1 + int i))) = Inr d \<and> 100 \<le> length d) \<and>
    requests_get (url self @ ''/api/v4'' @ ep) (headers_of self)
       (Some (page_params (per_page_params ps) (1 + int n))) = Inr dl \<and> length dl < 100
    \<longrightarrow> GitLabClient_get_all requests_get self ep ps =
           Some (map (\<lambda>i. HttpGet (url self @ ''/api/v4'' @ ep)
                                  (Some (page_params (per_page_params ps) (1 + int i)))) [0..<Suc n],
                 Inr (concat (map (\<lambda>i. page_data (requests_get (url self @ ''/api/v4'' @ ep)
                                           (headers_of self)
                                           (Some (page_params (per_page_params ps) (1 + int i)))))
                                [0..<n]) @ dl))) \<and>
   (requests_get (url self @ ''/api/v4'' @ ep) (headers_of self)
       (Some (page_params (per_page_params ps) 1)) = Inr pa \<and> length pa = 100 \<and>
    requests_get (url self @ ''/api/v4'' @ ep) (headers_of self)
       (Some (page_params (per_page_params ps) 2)) = Inr pb \<and> length pb = 100 \<and>
    requests_get (url self @ ''/api/v4'' @ ep) (headers_of self)
       (Some (page_params (per_page_params ps) 3)) = Inr pc \<and> length pc = 37
    \<longrightarrow> GitLabClient_get_all requests_get self ep ps =
           Some ([HttpGet (url self @ ''/api/v4'' @ ep) (Some (page_params (per_page_params ps) 1)),
                  HttpGet (url self @ ''/api/v4'' @ ep) (Some (page_params (per_page_params ps) 2)),
                  HttpGet (url self @ ''/api/v4'' @ ep) (Some (page_params (per_page_params ps) 3))],
                 Inr (pa @ pb @ pc)) \<and>
          length (pa @ pb @ pc) = 237)"
proof (intro conjI impI)
  assume "(\<forall>i<n. \<exists>d. requests_get (url self @ ''/api/v4'' @ ep) (headers_of self)
                   (Some (page_params (per_page_params ps) (1 + int i))) = Inr d \<and> 100 \<le> length d) \<and>
    requests_get (url self @ ''/api/v4'' @ ep) (headers_of self)
       (Some (page_params (per_page_params ps) (1 + int n))) = Inr dl \<and> length dl < 100"
  then show "GitLabClient_get_all requests_get self ep ps =
           Some (map (\<lambda>i. HttpGet (url self @ ''/api/v4'' @ ep)
                                  (Some (page_params (per_page_params ps) (1 + int i)))) [0..<Suc n],
                 Inr (concat (map (\<lambda>i. page_data (requests_get (url self @ ''/api/v4'' @ ep)
                                           (headers_of self)
                                           (Some (page_params (per_page_params ps) (1 + int i)))))
                                [0..<n]) @ dl))"
    using get_all_pages [where requests_get = requests_get and self = self and ep = ep and
      ps = ps and n = n and dl = dl]
    by blast
next
  let ?u = "url self @ ''/api/v4'' @ ep"
  let ?q = "\<lambda>k. Some (page_params (per_page_params ps) k)"
  assume a: "requests_get ?u (headers_of self) (?q 1) = Inr pa \<and> length pa = 100 \<and>
    requests_get ?u (headers_of self) (?q 2) = Inr pb \<and> length pb = 100 \<and>
    requests_get ?u (headers_of self) (?q 3) = Inr pc \<and> length pc = 37"
  have full: "\<forall>i<2. \<exists>d. requests_get ?u (headers_of self) (?q (1 + int i)) = Inr d \<and> 100 \<le> length d"
  proof (intro allI impI)
    fix i :: nat assume "i < 2"
    then have "i = 0 \<or> i = 1" by auto
    then show "\<exists>d. requests_get ?u (headers_of self) (?q (1 + int i)) = Inr d \<and> 100 \<le> length d"
      using a by auto
  qed
  have last: "requests_get ?u (headers_of self) (?q (1 + int 2)) = Inr pc" using a by simp
  have short: "length pc < 100" using a by simp
  have "GitLabClient_get_all requests_get self ep ps =
           Some (map (\<lambda>i. HttpGet ?u (?q (1 + int i))) [0..<Suc 2],
                 Inr (concat (map (\<lambda>i. page_data (requests_get ?u (headers_of self) (?q (1 + int i))))
                                [0..<2]) @ pc))"
    using full last short
      get_all_pages [where requests_get = requests_get and self = self and ep = ep and
        ps = ps and n = 2 and dl = pc]
    by blast
  also have "[0..<Suc 2] = [0, 1, 2]" by (simp add: upt_rec)
  also have "[0..<2] = [0, Suc 0]" by (simp add: upt_rec)
  finally show "GitLabClient_get_all requests_get self ep ps =
           Some ([HttpGet ?u (?q 1), HttpGet ?u (?q 2), HttpGet ?u (?q 3)], Inr (pa @ pb @ pc))"
    using a by (simp add: page_data_def)
  show "length (pa @ pb @ pc) = 237" using a by simp
qed


theorem get_all_pagination_witness:
  "GitLabClient_get_all three_pages example_client ''/groups/dev/projects'' None =
     Some ([HttpGet (url example_client @ ''/api/v4'' @ ''/groups/dev/projects'')
              (Some [(''per_page'', PInt 100), (''page'', PInt 1)]),
            HttpGet (url example_client @ ''/api/v4'' @ ''/groups/dev/projects'')
              (Some [(''per_page'', PInt 100), (''page'', PInt 2)]),
            HttpGet (url example_client @ ''/api/v4'' @ ''/groups/dev/projects'')
              (Some [(''per_page'', PInt 100), (''page'', PInt 3)])],
           Inr (replicate 100 1 @ replicate 100 2 @ replicate 37 3)) \<and>
   length (replicate 100 (1::nat) @ replicate 100 2 @ replicate 37 3) = 237"
  using get_all_pagination [where requests_get = three_pages and self = example_client and
          ep = "''/groups/dev/projects''" and ps = None and n = 2 and dl = "replicate 37 3" and
          pa = "replicate 100 1" and pb = "replicate 100 2" and pc = "replicate 37 3"]
  by (simp add: three_pages_def page_params_def per_page_params_def)

section \<open>A commit whose analysis fails\<close>

text \<open>
  Claim C5: when the \<^verbatim>\<open>try\<close> block of \<open>analyze_commit_diff\<close> raises (the request for
  the diff, or the loop over it), the function returns: it prints the warning and gives
  0. The pass over that commit then records it with 0 effective additions, and the loop
  goes on with the commits that follow, from the dictionary so obtained.
\<close>

theorem analyze_failure_contained:
  assumes "snd (analyze_try w client (project_id p) (commit_id c)) = Inl e"
  shows "analyze_commit_diff w client (project_id p) (commit_id c) =
           (fst (analyze_try w client (project_id p) (commit_id c)) @
              [Print (AnalyzeWarning (commit_id c) e)], 0) \<and>
         snd (collect_commit w client p c devs) = record_commit (project_name p) c 0 devs \<and>
         snd (collect_commits w client p (c # rest) devs) =
           snd (collect_commits w client p rest (record_commit (project_name p) c 0 devs))"
  using assms
  by (simp add: analyze_commit_diff_def collect_commit_def Let_def)

theorem analyze_failure_contained_witness:
  "snd (analyze_try
          (constant_world (Inr [example_project]) (Inr [commit_ann, commit_anna])
             (Inl (HTTPError 500)) (\<lambda>u d. Inl (RequestException ''down'')))
          example_client (project_id example_project) (commit_id commit_ann)) =
     Inl (HTTPError 500) \<and>
   snd (analyze_commit_diff
          (constant_world (Inr [example_project]) (Inr [commit_ann, commit_anna])
             (Inl (HTTPError 500)) (\<lambda>u d. Inl (RequestException ''down'')))
          example_client (project_id example_project) (commit_id commit_ann)) = 0 \<and>
   last (fst (analyze_commit_diff
          (constant_world (Inr [example_project]) (Inr [commit_ann, commit_anna])
             (Inl (HTTPError 500)) (\<lambda>u d. Inl (RequestException ''down'')))
          example_client (project_id example_project) (commit_id commit_ann))) =
     Print (AnalyzeWarning ''0123456789abcdef'' (HTTPError 500)) \<and>
   snd (collect_commits
          (constant_world (Inr [example_project]) (Inr [commit_ann, commit_anna])
             (Inl (HTTPError 500)) (\<lambda>u d. Inl (RequestException ''down'')))
          example_client example_project [commit_ann, commit_anna] []) =
     [(''ann@example.com'', ann_after_two)]"
proof -
  let ?w = "constant_world (Inr [example_project]) (Inr [commit_ann, commit_anna])
             (Inl (HTTPError 500)) (\<lambda>u d. Inl (RequestException ''down''))"
  have failing: "snd (analyze_try ?w example_client (project_id p) (commit_id c)) =
                   Inl (HTTPError 500)" for p c
    by (simp add: analyze_try_def get_commit_diff_def GitLabClient_get_def constant_world_def)
  note one = analyze_failure_contained [OF failing, of example_project commit_ann "[]" "[commit_anna]"]
  note two = analyze_failure_contained [OF failing, of example_project commit_anna
                "record_commit (project_name example_project) commit_ann 0 []" "[]"]
  have "snd (collect_commits ?w example_client example_project [commit_ann, commit_anna] []) =
        record_commit (project_name example_project) commit_anna 0
          (record_commit (project_name example_project) commit_ann 0 [])"
    using one two by simp
  also have "\<dots> = [(''ann@example.com'', ann_after_two)]"
    by (simp add: example_project_def record_commit_def ann_after_two_def new_DeveloperStats_def
          commit_ann_def commit_anna_def commit_email_def commit_name_def
          commit_additions_def commit_deletions_def Let_def)
  finally have all: "snd (collect_commits ?w example_client example_project
                        [commit_ann, commit_anna] []) = [(''ann@example.com'', ann_after_two)]" .
  from one have "analyze_commit_diff ?w example_client (project_id example_project)
                   (commit_id commit_ann) =
           (fst (analyze_try ?w example_client (project_id example_project) (commit_id commit_ann)) @
              [Print (AnalyzeWarning (commit_id commit_ann) (HTTPError 500))], 0)"
    by blast
  then have "snd (analyze_commit_diff ?w example_client (project_id example_project)
                   (commit_id commit_ann)) = 0"
    and "last (fst (analyze_commit_diff ?w example_client (project_id example_project)
                   (commit_id commit_ann))) =
         Print (AnalyzeWarning ''0123456789abcdef'' (HTTPError 500))"
    by (simp_all add: commit_ann_def)
  with failing all show ?thesis by blast
qed

section \<open>Bounds on the effective additions\<close>

lemma set_update_subset: "set (AList.update k v al) \<subseteq> insert (k, v) (set al)"
  by (induction al) auto

lemma count_effective_lines_nonneg: "0 \<le> count_effective_lines body"
  by (simp add: count_effective_lines_def count_effective_loop_filter)

lemma analyze_loop_nonneg: "analyze_loop ds n = Inr m \<Longrightarrow> n \<le> m"
proof (induction ds arbitrary: n)
  case Nil
  then show ?case by simp
next
  case (Cons d ds)
  show ?case
  proof (cases "get_or_empty (new_path d)")
    case JOther
    with Cons.prems show ?thesis by simp
  next
    case (JStr path)
    show ?thesis
    proof (cases "endswith path ''.java''")
      case False
      with JStr Cons.prems have "analyze_loop ds n = Inr m" by simp
      then show ?thesis by (rule Cons.IH)
    next
      case True
      show ?thesis
      proof (cases "get_or_empty (diff d)")
        case JOther
        with JStr True Cons.prems show ?thesis by simp
      next
        case (JStr body)
        with \<open>get_or_empty (new_path d) = JStr path\<close> True Cons.prems
        have "analyze_loop ds (n + count_effective_lines body) = Inr m" by simp
        then have "n + count_effective_lines body \<le> m" by (rule Cons.IH)
        then show ?thesis using count_effective_lines_nonneg [of body] by linarith
      qed
    qed
  qed
qed

lemma analyze_commit_diff_nonneg: "0 \<le> snd (analyze_commit_diff w client pid s)"
  by (auto simp: analyze_commit_diff_def analyze_try_def Let_def split: sum.splits
      dest: analyze_loop_nonneg)

lemma record_commit_inv_lo:
  assumes "inv_lo devs" "0 \<le> k"
  shows "inv_lo (record_commit pn c k devs)"
proof -
  have "0 \<le> effective_additions d" if "map_of devs (commit_email c) = Some d" for d
    using assms(1) map_of_SomeD [OF that] by (force simp: inv_lo_def)
  then show ?thesis
    using assms set_update_subset
    by (fastforce simp: inv_lo_def record_commit_def Let_def new_DeveloperStats_def
        split: option.splits)
qed

lemma record_commit_inv_hi:
  assumes "inv_hi devs" "k \<le> commit_additions c"
  shows "inv_hi (record_commit pn c k devs)"
proof -
  have "effective_additions d \<le> total_additions d" if "map_of devs (commit_email c) = Some d" for d
    using assms(1) map_of_SomeD [OF that] by (force simp: inv_hi_def)
  then show ?thesis
    using assms set_update_subset
    by (fastforce simp: inv_hi_def record_commit_def Let_def new_DeveloperStats_def
        split: option.splits)
qed

lemma collect_commits_inv_lo:
  "inv_lo devs \<Longrightarrow> inv_lo (snd (collect_commits w client p cs devs))"
  by (induction cs arbitrary: devs)
     (simp_all add: Let_def collect_commit_def record_commit_inv_lo analyze_commit_diff_nonneg)

lemma collect_commits_inv_hi:
  "inv_hi devs \<Longrightarrow>
   list_all (\<lambda>c. snd (analyze_commit_diff w client (project_id p) (commit_id c)) \<le> commit_additions c) cs \<Longrightarrow>
   inv_hi (snd (collect_commits w client p cs devs))"
  by (induction cs arbitrary: devs)
     (simp_all add: Let_def collect_commit_def record_commit_inv_hi)

lemma collect_projects_inv_lo:
  "collect_projects w client since until ps devs = Some (evs, Inr devs') \<Longrightarrow> inv_lo devs \<Longrightarrow>
   inv_lo devs'"
proof (induction ps arbitrary: devs evs)
  case Nil
  then show ?case by simp
next
  case (Cons p ps)
  then show ?case
    by (auto simp: Let_def collect_commits_inv_lo split: option.splits sum.splits prod.splits)
qed

lemma collect_projects_inv_hi:
  "collect_projects w client since until ps devs = Some (evs, Inr devs') \<Longrightarrow> inv_hi devs \<Longrightarrow>
   list_all (\<lambda>p. case get_project_commits w client (project_id p) since until of
                    Some (ev2, Inr cs) \<Rightarrow>
                      list_all (\<lambda>c. snd (analyze_commit_diff w client (project_id p) (commit_id c))
                              \<le> commit_additions c) cs
                  | _ \<Rightarrow> True) ps \<Longrightarrow>
   inv_hi devs'"
proof (induction ps arbitrary: devs evs)
  case Nil
  then show ?case by simp
next
  case (Cons p ps)
  then show ?case
    by (auto simp: Let_def collect_commits_inv_hi split: option.splits sum.splits prod.splits)
qed

lemma collect_stats_returns:
  assumes "collect_stats w cfg client day = Some (evs, Inr devs)"
  obtains ev1 ps ev2 where
    "get_group_projects w cfg client (GITLAB_GROUP cfg) = Some (ev1, Inr ps)"
    "collect_projects w client (ymd_dashed day @ ''T00:00:00+08:00'')
       (ymd_dashed day @ ''T23:59:59+08:00'') ps [] = Some (ev2, Inr devs)"
  using assms
  by (auto simp: collect_stats_def Let_def split: option.splits sum.splits prod.splits)

text \<open>
  Claim C1, as amended: after a collection pass that returns, every aggregate has
  \<open>0 \<le> effective_additions\<close>; and \<open>effective_additions \<le> total_additions\<close> holds when
  every commit the API listed reports at least as many additions in its statistics as
  its diff has effective added lines. The two numbers come from two different requests
  (the diff and the commit statistics), and nothing in the pass relates them.
\<close>

theorem effective_additions_bounds:
  assumes "(k, d) \<in> set (collected (collect_stats w cfg client day))"
  shows "0 \<le> effective_additions d \<and>
         (additions_cover_effective w cfg client day \<longrightarrow> effective_additions d \<le> total_additions d)"
proof -
  obtain evs devs where run: "collect_stats w cfg client day = Some (evs, Inr devs)"
    and mem: "(k, d) \<in> set devs"
  proof (cases "collect_stats w cfg client day")
    case None
    with assms show ?thesis by (simp add: collected_def)
  next
    case (Some r)
    obtain evs res where r: "r = (evs, res)" by (cases r)
    show ?thesis
    proof (cases res)
      case (Inl err)
      with assms Some r show ?thesis by (simp add: collected_def)
    next
      case (Inr devs)
      with assms Some r that show ?thesis by (simp add: collected_def)
    qed
  qed
  from run obtain ev1 ps ev2 where
    listed: "get_group_projects w cfg client (GITLAB_GROUP cfg) = Some (ev1, Inr ps)" and
    looped: "collect_projects w client (ymd_dashed day @ ''T00:00:00+08:00'')
       (ymd_dashed day @ ''T23:59:59+08:00'') ps [] = Some (ev2, Inr devs)"
    by (rule collect_stats_returns)
  have "inv_lo []" by (simp add: inv_lo_def)
  with looped have "inv_lo devs" by (rule collect_projects_inv_lo)
  then have lo: "0 \<le> effective_additions d" using mem by (force simp: inv_lo_def)
  have hi: "effective_additions d \<le> total_additions d"
    if "additions_cover_effective w cfg client day"
  proof -
    from that listed have covered:
      "list_all (\<lambda>p. case get_project_commits w client (project_id p)
                         (ymd_dashed day @ ''T00:00:00+08:00'')
                         (ymd_dashed day @ ''T23:59:59+08:00'') of
                    Some (ev2, Inr cs) \<Rightarrow>
                      list_all (\<lambda>c. snd (analyze_commit_diff w client (project_id p) (commit_id c))
                              \<le> commit_additions c) cs
                  | _ \<Rightarrow> True) ps"
      by (simp add: additions_cover_effective_def)
    have "inv_hi []" by (simp add: inv_hi_def)
    with looped have "inv_hi devs" using covered by (rule collect_projects_inv_hi)
    then show ?thesis using mem by (force simp: inv_hi_def)
  qed
  from lo hi show ?thesis by blast
qed

text \<open>A collection pass in a world with one project and fewer than 100 commits.\<close>

lemma get_all_short_answer:
  "length xs < 100 \<Longrightarrow>
   GitLabClient_get_all (\<lambda>u h q. Inr xs) self ep ps =
     Some ([HttpGet (url self @ ''/api/v4'' @ ep) (Some (page_params (per_page_params ps) 1))],
           Inr xs)"
  using get_all_pages [where requests_get = "\<lambda>u h q. Inr xs" and self = self and ep = ep and
      ps = ps and n = 0 and dl = xs]
  by simp

lemma collected_one_project:
  assumes "length cs < 100"
  shows "collected (collect_stats (constant_world (Inr [p]) (Inr cs) ds answer) example_config client day) =
         snd (collect_commits (constant_world (Inr [p]) (Inr cs) ds answer) client p cs [])"
  using assms
  by (simp add: collected_def collect_stats_def get_group_projects_def get_project_commits_def
      constant_world_def get_all_short_answer example_config_def Let_def)

lemma example_diffs_effective:
  "analyze_loop example_diffs 0 = Inr 1"
  by (simp add: example_diffs_def
      string_fields_def is_str_def str_of_def get_or_empty_def file_contribution_def is_java_def
      endswith_def counted_line_def startswith_def newline_def count_effective_lines_def
      is_effective_line_def EXCLUDE_PATTERNS_def re_match_def lit_def isspace_def isword_def)

theorem effective_additions_bounds_witness:
  "(''ann@example.com'',
    \<lparr> name = ''Ann'', email = ''ann@example.com'',
      commits = [\<lparr> sha = ''01234567'', message = ''Add A'', additions = 3, deletions = 1,
                   commit_effective_additions = 1, commit_files_changed = 0 \<rparr>],
      total_additions = 3, total_deletions = 1, effective_additions = 1, files_changed = 0,
      projects = {''app-core''} \<rparr>)
     \<in> set (collected (collect_stats
           (constant_world (Inr [example_project]) (Inr [commit_ann]) (Inr example_diffs)
              (\<lambda>u d. Inl (RequestException ''down'')))
           example_config example_client example_day)) \<and>
   additions_cover_effective
     (constant_world (Inr [example_project]) (Inr [commit_ann]) (Inr example_diffs)
        (\<lambda>u d. Inl (RequestException ''down'')))
     example_config example_client example_day \<and>
   (0::int) \<le> 1 \<and> (1::int) \<le> 3"
proof -
  let ?w = "constant_world (Inr [example_project]) (Inr [commit_ann]) (Inr example_diffs)
              (\<lambda>u d. Inl (RequestException ''down''))"
  let ?d = "\<lparr> name = ''Ann'', email = ''ann@example.com'',
      commits = [\<lparr> sha = ''01234567'', message = ''Add A'', additions = 3, deletions = 1,
                   commit_effective_additions = 1, commit_files_changed = 0 \<rparr>],
      total_additions = 3, total_deletions = 1, effective_additions = 1, files_changed = 0,
      projects = {''app-core''} \<rparr>"
  have analysed: "snd (analyze_commit_diff ?w example_client (project_id example_project)
                        (commit_id commit_ann)) = 1"
    by (simp add: analyze_commit_diff_def analyze_try_def get_commit_diff_def
        GitLabClient_get_def constant_world_def example_diffs_effective)
  have mem: "(''ann@example.com'', ?d) \<in> set (collected (collect_stats ?w example_config
               example_client example_day))"
    by (subst collected_one_project, simp, simp only: collect_commits.simps collect_commit_def
          Let_def analysed snd_conv)
       (simp add: example_project_def record_commit_def
          new_DeveloperStats_def commit_ann_def commit_email_def commit_name_def
          commit_additions_def commit_deletions_def Let_def)
  have listing:
    "get_group_projects ?w example_config example_client (GITLAB_GROUP example_config) =
       Some ([HttpGet (url example_client @ ''/api/v4'' @ ''/groups/'' @ ''dev'' @ ''/projects'')
                (Some (page_params (per_page_params (Some [(''include_subgroups'', PStr ''true'')])) 1))],
             Inr [example_project])"
    by (simp add: get_group_projects_def constant_world_def get_all_short_answer
        example_config_def)
  have commits_listing:
    "\<exists>evs. get_project_commits ?w example_client (project_id example_project) since until =
       Some (evs, Inr [commit_ann])" for since until
    by (simp add: get_project_commits_def constant_world_def get_all_short_answer)
  have enough: "(1::int) \<le> commit_additions commit_ann"
    by (simp add: commit_additions_def commit_ann_def)
  have cover: "additions_cover_effective ?w example_config example_client example_day"
    unfolding additions_cover_effective_def listing
    using commits_listing [of "ymd_dashed example_day @ ''T00:00:00+08:00''"
                              "ymd_dashed example_day @ ''T23:59:59+08:00''"] enough
    by (auto simp: analysed)
  from effective_additions_bounds [OF mem] cover show ?thesis
    using mem by simp
qed

text \<open>
  The claim as stated fails: a commit without statistics (its additions default to 0)
  whose diff adds one effective Java line leaves its author with 1 effective addition
  and 0 total additions.
\<close>

theorem effective_exceeds_total_counterexample:
  "summary (collected (collect_stats
      (constant_world (Inr [example_project]) (Inr [commit_no_stats]) (Inr example_diffs)
         (\<lambda>u d. Inl (RequestException ''down'')))
      example_config example_client example_day)) = [(''ann@example.com'', ''Ann'', 1, 0)] \<and>
   \<not> ((1::int) \<le> 0)"
  by (subst collected_one_project, simp)
     (simp add: collect_commit_def analyze_commit_diff_def analyze_try_def
      get_commit_diff_def GitLabClient_get_def constant_world_def example_diffs_effective
      record_commit_def new_DeveloperStats_def commit_no_stats_def commit_email_def commit_name_def
      commit_additions_def commit_deletions_def summary_def example_project_def Let_def)

section \<open>The display name of an aggregate\<close>

lemma name_of_record_commit:
  "name_of (record_commit pn c k devs) e =
     (if e = commit_email c \<and> name_of devs e = None then Some (commit_name c) else name_of devs e)"
  by (auto simp: name_of_def record_commit_def Let_def update_conv' new_DeveloperStats_def
      split: option.splits)

lemma name_of_collect_commits:
  "name_of (snd (collect_commits w client p cs devs)) e =
     (case name_of devs e of
        Some n \<Rightarrow> Some n
      | None \<Rightarrow> map_option commit_name (find (\<lambda>c. commit_email c = e) cs))"
proof (induction cs arbitrary: devs)
  case Nil
  then show ?case by (simp split: option.splits)
next
  case (Cons c cs)
  then show ?case
    by (simp add: Let_def collect_commit_def name_of_record_commit split: option.splits)
qed

lemma name_of_collect_projects:
  "collect_projects w client since until ps devs = Some (evs, Inr devs') \<Longrightarrow>
   name_of devs e = Some n \<Longrightarrow> name_of devs' e = Some n"
proof (induction ps arbitrary: devs evs)
  case Nil
  then show ?case by simp
next
  case (Cons p ps)
  from Cons.prems(1) obtain ev1 cs ev3 where
    cs: "get_project_commits w client (project_id p) since until = Some (ev1, Inr cs)" and
    rest: "collect_projects w client since until ps (snd (collect_commits w client p cs devs)) =
             Some (ev3, Inr devs')"
    by (auto simp: Let_def split: option.splits sum.splits prod.splits)
  have "name_of (snd (collect_commits w client p cs devs)) e = Some n"
    using Cons.prems(2) by (simp add: name_of_collect_commits)
  with rest show ?case by (rule Cons.IH)
qed

text \<open>
  Claim C9, as amended: the aggregate of an email keeps the display name of the first
  commit seen with that email. After the loop over the commits of a project, the name
  under an email is the one already there, or else that of the first commit of the list
  with this email; and a name that is there is still there at the end of the loop over
  the projects.
\<close>

theorem first_seen_name_kept:
  "name_of (snd (collect_commits w client p cs devs)) e =
     (case name_of devs e of
        Some n \<Rightarrow> Some n
      | None \<Rightarrow> map_option commit_name (find (\<lambda>c. commit_email c = e) cs)) \<and>
   (name_of devs e = Some n \<and>
    map_of (collected (collect_projects w client since until ps devs)) e = Some d
      \<longrightarrow> name d = n)"
proof (intro conjI impI)
  show "name_of (snd (collect_commits w client p cs devs)) e =
     (case name_of devs e of
        Some n \<Rightarrow> Some n
      | None \<Rightarrow> map_option commit_name (find (\<lambda>c. commit_email c = e) cs))"
    by (rule name_of_collect_commits)
next
  assume a: "name_of devs e = Some n \<and>
    map_of (collected (collect_projects w client since until ps devs)) e = Some d"
  show "name d = n"
  proof (cases "collect_projects w client since until ps devs")
    case None
    with a show ?thesis by (simp add: collected_def)
  next
    case (Some r)
    obtain evs res where r: "r = (evs, res)" by (cases r)
    show ?thesis
    proof (cases res)
      case (Inl err)
      with a Some r show ?thesis by (simp add: collected_def)
    next
      case (Inr devs')
      with Some r have run: "collect_projects w client since until ps devs = Some (evs, Inr devs')"
        by simp
      from a have known: "name_of devs e = Some n" by simp
      from run known have "name_of devs' e = Some n" by (rule name_of_collect_projects)
      moreover have "map_of devs' e = Some d" using a run by (simp add: collected_def)
      ultimately show ?thesis by (simp add: name_of_def)
    qed
  qed
qed

text \<open>
  The claim as stated fails: of two commits of one email named Ann and then Anna, the
  aggregate ends the pass as Ann.
\<close>

theorem last_seen_name_counterexample:
  "summary (collected (collect_stats
      (constant_world (Inr [example_project]) (Inr [commit_ann, commit_anna]) (Inr [])
         (\<lambda>u d. Inl (RequestException ''down'')))
      example_config example_client example_day)) = [(''ann@example.com'', ''Ann'', 0, 8)] \<and>
   commit_email commit_anna = ''ann@example.com'' \<and> commit_name commit_anna = ''Anna'' \<and>
   ''Ann'' \<noteq> ''Anna''"
  by (subst collected_one_project, simp)
     (simp add: collect_commit_def analyze_commit_diff_def analyze_try_def
      get_commit_diff_def GitLabClient_get_def constant_world_def
      record_commit_def new_DeveloperStats_def commit_ann_def commit_anna_def commit_email_def commit_name_def
      commit_additions_def commit_deletions_def summary_def example_project_def Let_def)

lemma collect_projects_one:
  assumes "length cs < 100"
  shows "collected (collect_projects (constant_world ps (Inr cs) ds answer) client since until [p] devs) =
         snd (collect_commits (constant_world ps (Inr cs) ds answer) client p cs devs)"
  using assms
  by (simp add: collected_def get_project_commits_def constant_world_def get_all_short_answer Let_def)

lemma analyze_no_files:
  "snd (analyze_commit_diff (constant_world ps cs (Inr []) answer) client pid s) = 0"
  by (simp add: analyze_commit_diff_def analyze_try_def get_commit_diff_def
      GitLabClient_get_def constant_world_def)

theorem first_seen_name_kept_witness:
  "name_of (snd (collect_commits
       (constant_world (Inr [example_project]) (Inr [commit_anna]) (Inr [])
          (\<lambda>u d. Inl (RequestException ''down'')))
       example_client example_project [commit_ann, commit_anna] [])) ''ann@example.com'' =
     Some ''Ann'' \<and>
   name_of [(''ann@example.com'', ann_after_one)] ''ann@example.com'' = Some ''Ann'' \<and>
   map_of (collected (collect_projects
       (constant_world (Inr [example_project]) (Inr [commit_anna]) (Inr [])
          (\<lambda>u d. Inl (RequestException ''down'')))
       example_client ''2024-05-01T00:00:00+08:00'' ''2024-05-01T23:59:59+08:00''
       [example_project] [(''ann@example.com'', ann_after_one)])) ''ann@example.com'' =
     Some ann_after_two \<and>
   name ann_after_two = ''Ann''"
proof -
  let ?w = "constant_world (Inr [example_project]) (Inr [commit_anna]) (Inr [])
          (\<lambda>u d. Inl (RequestException ''down''))"
  have known: "name_of [(''ann@example.com'', ann_after_one)] ''ann@example.com'' = Some ''Ann''"
    by (simp add: name_of_def ann_after_one_def)
  have kept: "map_of (collected (collect_projects ?w
       example_client ''2024-05-01T00:00:00+08:00'' ''2024-05-01T23:59:59+08:00''
       [example_project] [(''ann@example.com'', ann_after_one)])) ''ann@example.com'' =
     Some ann_after_two"
    by (subst collect_projects_one, simp, simp only: collect_commits.simps collect_commit_def
          Let_def analyze_no_files snd_conv)
       (simp add: example_project_def record_commit_def ann_after_one_def ann_after_two_def
          commit_anna_def commit_email_def commit_name_def
          commit_additions_def commit_deletions_def Let_def)
  have first: "name_of (snd (collect_commits ?w example_client example_project
       [commit_ann, commit_anna] [])) ''ann@example.com'' = Some ''Ann''"
    using first_seen_name_kept [of ?w example_client example_project "[commit_ann, commit_anna]"
        "[]" "''ann@example.com''"]
    by (simp add: name_of_def commit_email_def commit_name_def commit_ann_def)
  from first_seen_name_kept [of ?w example_client example_project "[]"
        "[(''ann@example.com'', ann_after_one)]" "''ann@example.com''" "''Ann''"
        "''2024-05-01T00:00:00+08:00''" "''2024-05-01T23:59:59+08:00''" "[example_project]"
        ann_after_two] known kept
  have "name ann_after_two = ''Ann''" by blast
  with first known kept show ?thesis by blast
qed

section \<open>Notification failures\<close>

lemma send_wecom_answered:
  assumes "\<forall>u data. post w u data = Inr (answer u data)"
  shows "send_wecom w hook content =
           ([HttpPost hook (WecomMarkdown content),
             Print (WecomResult (status_code (answer hook (WecomMarkdown content))))], Inr ())"
  using assms by (simp add: send_wecom_def Let_def)

lemma send_dingtalk_answered:
  assumes "\<forall>u data. post w u data = Inr (answer u data)"
  shows "send_dingtalk w hook content =
           ([HttpPost hook (DingtalkMarkdown content),
             Print (DingtalkResult (status_code (answer hook (DingtalkMarkdown content))))], Inr ())"
  using assms by (simp add: send_dingtalk_def Let_def)

lemma collected_nonempty:
  assumes "collected r \<noteq> []"
  obtains ev where "r = Some (ev, Inr (collected r))"
proof (cases r)
  case None
  with assms show ?thesis by (simp add: collected_def)
next
  case (Some x)
  obtain ev res where x: "x = (ev, res)" by (cases x)
  show ?thesis
  proof (cases res)
    case (Inl err)
    with assms Some x show ?thesis by (simp add: collected_def)
  next
    case (Inr devs)
    with Some x that show ?thesis by (simp add: collected_def)
  qed
qed

lemma main_exit_one:
  assumes "GITLAB_URL cfg \<noteq> []" "GITLAB_TOKEN cfg \<noteq> []" "GITLAB_GROUP cfg \<noteq> []"
    and "collected (collect_stats w cfg (new_GitLabClient (GITLAB_URL cfg) (GITLAB_TOKEN cfg))
           (clock_yesterday w)) = devs"
    and "devs \<noteq> []"
    and "write_file w (path_join (report_dir w) (''report_'' @ ymd_compact (clock_yesterday w) @ ''.md''))
           (gen_md devs (clock_yesterday w)) = Inr ()"
    and "snd (notify w cfg (gen_md devs (clock_yesterday w))) = Inl e"
  shows "map_option snd (main w cfg gen_text gen_md) = Some 1"
proof -
  from assms(4,5) obtain ev where run:
    "collect_stats w cfg (new_GitLabClient (GITLAB_URL cfg) (GITLAB_TOKEN cfg))
           (clock_yesterday w) = Some (ev, Inr devs)"
    by (metis collected_nonempty)
  show ?thesis
    using assms(1-3,5-7) run by (simp add: main_def main_try_def Let_def)
qed

lemma collected_one_commit_world:
  assumes "PROJECT_PREFIXES cfg = []"
  shows "collected (collect_stats (one_commit_world answer) cfg client day) =
           [(''ann@example.com'', ann_after_one)]"
proof -
  have "collected (collect_stats (one_commit_world answer) cfg client day) =
        snd (collect_commits (one_commit_world answer) client example_project [commit_ann] [])"
    using assms
    by (simp add: one_commit_world_def collected_def collect_stats_def get_group_projects_def
        get_project_commits_def constant_world_def get_all_short_answer Let_def)
  also have "\<dots> = [(''ann@example.com'', ann_after_one)]"
    unfolding one_commit_world_def
    by (simp only: collect_commits.simps collect_commit_def Let_def analyze_no_files snd_conv)
       (simp add: example_project_def record_commit_def ann_after_one_def new_DeveloperStats_def
          commit_ann_def commit_email_def commit_name_def
          commit_additions_def commit_deletions_def Let_def)
  finally show ?thesis .
qed

lemma send_parts_log:
  assumes "\<forall>u data. post w u data = Inr (answer u data)"
  shows "send_parts w u chat_id n i parts =
           (concat (map (telegram_part_events answer u chat_id n)
                      (zip [i..<i + length parts] parts)), Inr ())"
proof (induction parts arbitrary: i)
  case Nil
  then show ?case by simp
next
  case (Cons part rest)
  have "[i..<i + Suc (length rest)] = i # [Suc i..<i + Suc (length rest)]"
    by (rule upt_conv_Cons) simp
  moreover have "i + Suc (length rest) = Suc i + length rest" by simp
  ultimately have "[i..<i + Suc (length rest)] = i # [Suc i..<Suc i + length rest]"
    by (simp only:)
  then have upt: "[i..<i + length (part # rest)] = i # [Suc i..<Suc i + length rest]"
    by (simp only: length_Cons)
  show ?case
    unfolding upt
    using assms Cons [of "Suc i"]
    by (simp add: Let_def telegram_part_events_def)
qed

lemma send_telegram_log:
  assumes "\<forall>u data. post w u data = Inr (answer u data)"
  shows "send_telegram w bot_token chat_id md =
           (telegram_log answer (telegram_url bot_token) chat_id (telegram_parts md), Inr ())"
  using send_parts_log [OF assms, of "telegram_url bot_token" chat_id
      "length (telegram_parts md)" 0 "telegram_parts md"]
  by (simp add: send_telegram_def telegram_url_def telegram_log_def Let_def)

lemma notify_log:
  assumes "\<forall>u data. post w u data = Inr (answer u data)"
  shows "notify w cfg md =
           (wecom_events answer cfg md @ dingtalk_events answer cfg md @
            telegram_events answer cfg md, Inr ())"
  by (simp add: notify_def Let_def send_wecom_answered [OF assms]
      send_dingtalk_answered [OF assms] send_telegram_log [OF assms]
      wecom_events_def dingtalk_events_def telegram_events_def)

lemma notify_wecom_raises:
  assumes "env_set (WECOM_WEBHOOK cfg)"
    and "post w (env_value (WECOM_WEBHOOK cfg)) (WecomMarkdown md) = Inl e"
  shows "notify w cfg md = ([HttpPost (env_value (WECOM_WEBHOOK cfg)) (WecomMarkdown md)], Inl e)"
  using assms by (simp add: notify_def send_wecom_def Let_def)

lemma notify_dingtalk_raises:
  assumes "\<not> env_set (WECOM_WEBHOOK cfg) \<or>
           post w (env_value (WECOM_WEBHOOK cfg)) (WecomMarkdown md) = Inr r"
    and "env_set (DINGTALK_WEBHOOK cfg)"
    and "post w (env_value (DINGTALK_WEBHOOK cfg)) (DingtalkMarkdown md) = Inl e"
  shows "notify w cfg md =
           ((if env_set (WECOM_WEBHOOK cfg)
             then [HttpPost (env_value (WECOM_WEBHOOK cfg)) (WecomMarkdown md),
                   Print (WecomResult (status_code r))]
             else []) @
            [HttpPost (env_value (DINGTALK_WEBHOOK cfg)) (DingtalkMarkdown md)], Inl e)"
  using assms by (auto simp add: notify_def send_wecom_def send_dingtalk_def Let_def)

lemma notify_telegram_raises:
  assumes "\<not> env_set (WECOM_WEBHOOK cfg) \<or>
           post w (env_value (WECOM_WEBHOOK cfg)) (WecomMarkdown md) = Inr r"
    and "\<not> env_set (DINGTALK_WEBHOOK cfg) \<or>
         post w (env_value (DINGTALK_WEBHOOK cfg)) (DingtalkMarkdown md) = Inr r'"
    and "env_set (TELEGRAM_BOT_TOKEN cfg)" "env_set (TELEGRAM_CHAT_ID cfg)"
    and "snd (send_telegram w (env_value (TELEGRAM_BOT_TOKEN cfg))
                (env_value (TELEGRAM_CHAT_ID cfg)) md) = Inl e"
  shows "snd (notify w cfg md) = Inl e"
  using assms by (auto simp add: notify_def send_wecom_def send_dingtalk_def Let_def)

lemma send_parts_raises:
  assumes "post w u (TelegramMessage chat_id part) = Inl e"
  shows "send_parts w u chat_id n i (part # rest) = ([HttpPost u (TelegramMessage chat_id part)], Inl e)"
  using assms by simp

lemma main_raised:
  assumes "reaches_notifications w cfg gen_md devs"
    and "snd (notify w cfg (gen_md devs (clock_yesterday w))) = Inl e"
  shows "\<exists>evs. main w cfg gen_text gen_md =
           Some (evs @ [Print (StatsFailed e), Print (Traceback e)], 1)"
proof -
  from assms(1) obtain ev where run:
    "collect_stats w cfg (new_GitLabClient (GITLAB_URL cfg) (GITLAB_TOKEN cfg))
           (clock_yesterday w) = Some (ev, Inr devs)"
    unfolding reaches_notifications_def by (metis collected_nonempty)
  show ?thesis
    using assms run unfolding reaches_notifications_def
    by (simp add: main_def main_try_def Let_def)
qed

lemma main_answered:
  assumes "\<forall>u data. post w u data = Inr (answer u data)"
    and "reaches_notifications w cfg gen_md devs"
  shows "map_option snd (main w cfg gen_text gen_md) = Some 0"
proof -
  from assms(2) obtain ev where run:
    "collect_stats w cfg (new_GitLabClient (GITLAB_URL cfg) (GITLAB_TOKEN cfg))
           (clock_yesterday w) = Some (ev, Inr devs)"
    unfolding reaches_notifications_def by (metis collected_nonempty)
  have "snd (notify w cfg (gen_md devs (clock_yesterday w))) = Inr ()"
    by (simp add: notify_log [OF assms(1)])
  then show ?thesis
    using assms(2) run unfolding reaches_notifications_def
    by (simp add: main_def main_try_def Let_def)
qed


text \<open>
  Claim C6, as amended. When every notification request is answered, whatever the status
  of the answer: each configured channel sends its request and prints the outcome (the
  two webhooks the status; the bot, for each part, that it was sent or that it failed),
  the three channels are served one after the other, \<open>notify\<close> raises nothing, and a run
  that got as far as the notifications exits with 0. When a request raises instead (no
  answer: a timeout, a refused connection), it is not caught per channel: at the first
  webhook \<open>notify\<close> ends with that request, at the second webhook it ends there without
  the bot, in the bot the parts that follow are not sent, and in each case the
  exception leaves \<open>notify\<close>; \<open>main\<close> then prints the failure and exits with 1.
\<close>

theorem notifications_answered_or_raised:
  "((\<forall>u data. post w u data = Inr (answer u data)) \<longrightarrow>
      notify w cfg md =
        (wecom_events answer cfg md @ dingtalk_events answer cfg md @
         telegram_events answer cfg md, Inr ()) \<and>
      (reaches_notifications w cfg gen_md devs \<longrightarrow>
         map_option snd (main w cfg gen_text gen_md) = Some 0)) \<and>
   (env_set (WECOM_WEBHOOK cfg) \<and>
    post w (env_value (WECOM_WEBHOOK cfg)) (WecomMarkdown md) = Inl e \<longrightarrow>
      notify w cfg md =
        ([HttpPost (env_value (WECOM_WEBHOOK cfg)) (WecomMarkdown md)], Inl e)) \<and>
   ((\<not> env_set (WECOM_WEBHOOK cfg) \<or>
     post w (env_value (WECOM_WEBHOOK cfg)) (WecomMarkdown md) = Inr r) \<and>
    env_set (DINGTALK_WEBHOOK cfg) \<and>
    post w (env_value (DINGTALK_WEBHOOK cfg)) (DingtalkMarkdown md) = Inl e \<longrightarrow>
      notify w cfg md =
        ((if env_set (WECOM_WEBHOOK cfg)
          then [HttpPost (env_value (WECOM_WEBHOOK cfg)) (WecomMarkdown md),
                Print (WecomResult (status_code r))]
          else []) @
         [HttpPost (env_value (DINGTALK_WEBHOOK cfg)) (DingtalkMarkdown md)], Inl e)) \<and>
   (post w u (TelegramMessage chat_id part) = Inl e \<longrightarrow>
      send_parts w u chat_id n i (part # rest) =
        ([HttpPost u (TelegramMessage chat_id part)], Inl e)) \<and>
   ((\<not> env_set (WECOM_WEBHOOK cfg) \<or>
     post w (env_value (WECOM_WEBHOOK cfg)) (WecomMarkdown md) = Inr r) \<and>
    (\<not> env_set (DINGTALK_WEBHOOK cfg) \<or>
     post w (env_value (DINGTALK_WEBHOOK cfg)) (DingtalkMarkdown md) = Inr r') \<and>
    env_set (TELEGRAM_BOT_TOKEN cfg) \<and> env_set (TELEGRAM_CHAT_ID cfg) \<and>
    snd (send_telegram w (env_value (TELEGRAM_BOT_TOKEN cfg))
           (env_value (TELEGRAM_CHAT_ID cfg)) md) = Inl e \<longrightarrow>
      snd (notify w cfg md) = Inl e) \<and>
   (reaches_notifications w cfg gen_md devs \<and>
    snd (notify w cfg (gen_md devs (clock_yesterday w))) = Inl e \<longrightarrow>
      (\<exists>evs. main w cfg gen_text gen_md =
              Some (evs @ [Print (StatsFailed e), Print (Traceback e)], 1)))"
proof (intro conjI impI)
  assume a: "\<forall>u data. post w u data = Inr (answer u data)"
  show "notify w cfg md =
        (wecom_events answer cfg md @ dingtalk_events answer cfg md @
         telegram_events answer cfg md, Inr ())"
    by (rule notify_log [OF a])
  show "map_option snd (main w cfg gen_text gen_md) = Some 0"
    if "reaches_notifications w cfg gen_md devs"
    using a that by (rule main_answered)
next
  assume "env_set (WECOM_WEBHOOK cfg) \<and>
    post w (env_value (WECOM_WEBHOOK cfg)) (WecomMarkdown md) = Inl e"
  then show "notify w cfg md =
        ([HttpPost (env_value (WECOM_WEBHOOK cfg)) (WecomMarkdown md)], Inl e)"
    by (intro notify_wecom_raises) auto
next
  assume "(\<not> env_set (WECOM_WEBHOOK cfg) \<or>
     post w (env_value (WECOM_WEBHOOK cfg)) (WecomMarkdown md) = Inr r) \<and>
    env_set (DINGTALK_WEBHOOK cfg) \<and>
    post w (env_value (DINGTALK_WEBHOOK cfg)) (DingtalkMarkdown md) = Inl e"
  then show "notify w cfg md =
        ((if env_set (WECOM_WEBHOOK cfg)
          then [HttpPost (env_value (WECOM_WEBHOOK cfg)) (WecomMarkdown md),
                Print (WecomResult (status_code r))]
          else []) @
         [HttpPost (env_value (DINGTALK_WEBHOOK cfg)) (DingtalkMarkdown md)], Inl e)"
    by (intro notify_dingtalk_raises) auto
next
  assume "post w u (TelegramMessage chat_id part) = Inl e"
  then show "send_parts w u chat_id n i (part # rest) =
        ([HttpPost u (TelegramMessage chat_id part)], Inl e)"
    by (rule send_parts_raises)
next
  assume "(\<not> env_set (WECOM_WEBHOOK cfg) \<or>
     post w (env_value (WECOM_WEBHOOK cfg)) (WecomMarkdown md) = Inr r) \<and>
    (\<not> env_set (DINGTALK_WEBHOOK cfg) \<or>
     post w (env_value (DINGTALK_WEBHOOK cfg)) (DingtalkMarkdown md) = Inr r') \<and>
    env_set (TELEGRAM_BOT_TOKEN cfg) \<and> env_set (TELEGRAM_CHAT_ID cfg) \<and>
    snd (send_telegram w (env_value (TELEGRAM_BOT_TOKEN cfg))
           (env_value (TELEGRAM_CHAT_ID cfg)) md) = Inl e"
  then show "snd (notify w cfg md) = Inl e"
    using notify_telegram_raises [of cfg w md r r' e] by blast
next
  assume "reaches_notifications w cfg gen_md devs \<and>
    snd (notify w cfg (gen_md devs (clock_yesterday w))) = Inl e"
  then show "\<exists>evs. main w cfg gen_text gen_md =
              Some (evs @ [Print (StatsFailed e), Print (Traceback e)], 1)"
    using main_raised [of w cfg gen_md devs e gen_text] by blast
qed


lemma example_reaches_notifications:
  "reaches_notifications (one_commit_world reply) all_channels_config example_md_report
     [(''ann@example.com'', ann_after_one)]"
proof -
  have "collected (collect_stats (one_commit_world reply) all_channels_config
           (new_GitLabClient (GITLAB_URL all_channels_config) (GITLAB_TOKEN all_channels_config))
           (clock_yesterday (one_commit_world reply))) = [(''ann@example.com'', ann_after_one)]"
    by (rule collected_one_commit_world) (simp add: all_channels_config_def example_config_def)
  then show ?thesis
    by (simp add: reaches_notifications_def all_channels_config_def example_config_def
        one_commit_world_def constant_world_def)
qed

lemma example_channels:
  "env_set (WECOM_WEBHOOK all_channels_config)"
  "env_value (WECOM_WEBHOOK all_channels_config) = ''https://wecom.example.com/hook''"
  "env_set (DINGTALK_WEBHOOK all_channels_config)"
  "env_value (DINGTALK_WEBHOOK all_channels_config) = ''https://dingtalk.example.com/hook''"
  "env_set (TELEGRAM_BOT_TOKEN all_channels_config)"
  "env_value (TELEGRAM_BOT_TOKEN all_channels_config) = ''123:abc''"
  "env_set (TELEGRAM_CHAT_ID all_channels_config)"
  "env_value (TELEGRAM_CHAT_ID all_channels_config) = ''-100''"
  by (simp_all add: all_channels_config_def example_config_def env_set_def env_value_def)

lemma example_post: "post (one_commit_world reply) = reply"
  by (simp add: one_commit_world_def constant_world_def)

lemma short_report_parts: "telegram_parts ''# report'' = [''# report'']"
  by (simp add: telegram_parts_def max_len_def)

theorem notifications_answered_or_raised_witness:
  "notify (one_commit_world (\<lambda>u data. Inr (answer_500 u data))) all_channels_config ''# report'' =
     ([HttpPost ''https://wecom.example.com/hook'' (WecomMarkdown ''# report''),
       Print (WecomResult 500),
       HttpPost ''https://dingtalk.example.com/hook'' (DingtalkMarkdown ''# report''),
       Print (DingtalkResult 500),
       HttpPost (telegram_url ''123:abc'') (TelegramMessage ''-100'' ''# report''),
       Print (TelegramFailed 500 ''Internal Server Error'')], Inr ()) \<and>
   map_option snd (main (one_commit_world (\<lambda>u data. Inr (answer_500 u data)))
      all_channels_config example_text_report example_md_report) = Some 0 \<and>
   notify (one_commit_world all_down) all_channels_config ''# report'' =
     ([HttpPost ''https://wecom.example.com/hook'' (WecomMarkdown ''# report'')],
      Inl (RequestException ''timed out'')) \<and>
   map_option snd (main (one_commit_world all_down) all_channels_config
      example_text_report example_md_report) = Some 1 \<and>
   notify (one_commit_world dingtalk_down) all_channels_config ''# report'' =
     ([HttpPost ''https://wecom.example.com/hook'' (WecomMarkdown ''# report''),
       Print (WecomResult 500),
       HttpPost ''https://dingtalk.example.com/hook'' (DingtalkMarkdown ''# report'')],
      Inl (RequestException ''timed out'')) \<and>
   send_parts (one_commit_world telegram_down) (telegram_url ''123:abc'') ''-100'' 1 0
      [''# report''] =
     ([HttpPost (telegram_url ''123:abc'') (TelegramMessage ''-100'' ''# report'')],
      Inl (RequestException ''timed out'')) \<and>
   snd (notify (one_commit_world telegram_down) all_channels_config ''# report'') =
     Inl (RequestException ''timed out'')"
proof -
  let ?ok = "one_commit_world (\<lambda>u data. Inr (answer_500 u data))"
  let ?devs = "[(''ann@example.com'', ann_after_one)]"
  let ?e = "RequestException ''timed out''"
  let ?wecom = "''https://wecom.example.com/hook''"
  let ?ding = "''https://dingtalk.example.com/hook''"
  have md: "example_md_report ?devs day = ''# report''" for day
    by (simp add: example_md_report_def)
  note answered = notifications_answered_or_raised [where w = ?ok and answer = answer_500 and
      cfg = all_channels_config and md = "''# report''" and gen_md = example_md_report and
      gen_text = example_text_report and devs = ?devs]
  have ok_post: "\<forall>u data. post ?ok u data = Inr (answer_500 u data)"
    by (simp add: example_post)
  from answered ok_post
  have "notify ?ok all_channels_config ''# report'' =
          (wecom_events answer_500 all_channels_config ''# report'' @
           dingtalk_events answer_500 all_channels_config ''# report'' @
           telegram_events answer_500 all_channels_config ''# report'', Inr ())"
    by blast
  then have one: "notify ?ok all_channels_config ''# report'' =
     ([HttpPost ?wecom (WecomMarkdown ''# report''), Print (WecomResult 500),
       HttpPost ?ding (DingtalkMarkdown ''# report''), Print (DingtalkResult 500),
       HttpPost (telegram_url ''123:abc'') (TelegramMessage ''-100'' ''# report''),
       Print (TelegramFailed 500 ''Internal Server Error'')], Inr ())"
    by (simp add: wecom_events_def dingtalk_events_def telegram_events_def telegram_log_def
        telegram_part_events_def example_channels short_report_parts answer_500_def)
  from answered ok_post example_reaches_notifications [of "\<lambda>u data. Inr (answer_500 u data)"]
  have two: "map_option snd (main ?ok all_channels_config example_text_report example_md_report) =
               Some 0"
    by blast
  note down = notifications_answered_or_raised [where w = "one_commit_world all_down" and
      cfg = all_channels_config and md = "''# report''" and gen_md = example_md_report and
      gen_text = example_text_report and devs = ?devs and e = ?e]
  have down_post: "post (one_commit_world all_down) ?wecom (WecomMarkdown ''# report'') = Inl ?e"
    by (simp add: example_post all_down_def)
  from down down_post
  have three: "notify (one_commit_world all_down) all_channels_config ''# report'' =
                 ([HttpPost ?wecom (WecomMarkdown ''# report'')], Inl ?e)"
    by (simp add: example_channels)
  then have "snd (notify (one_commit_world all_down) all_channels_config
                    (example_md_report ?devs (clock_yesterday (one_commit_world all_down)))) = Inl ?e"
    by (simp add: md)
  with down example_reaches_notifications [of all_down]
  have "\<exists>evs. main (one_commit_world all_down) all_channels_config example_text_report
                 example_md_report =
               Some (evs @ [Print (StatsFailed ?e), Print (Traceback ?e)], 1)"
    by blast
  then have four: "map_option snd (main (one_commit_world all_down) all_channels_config
                     example_text_report example_md_report) = Some 1"
    by auto
  note ding = notifications_answered_or_raised [where w = "one_commit_world dingtalk_down" and
      cfg = all_channels_config and md = "''# report''" and e = ?e and
      r = "answer_500 ?wecom (WecomMarkdown ''# report'')"]
  have ding_posts:
    "post (one_commit_world dingtalk_down) ?wecom (WecomMarkdown ''# report'') =
       Inr (answer_500 ?wecom (WecomMarkdown ''# report''))"
    "post (one_commit_world dingtalk_down) ?ding (DingtalkMarkdown ''# report'') = Inl ?e"
    by (simp_all add: example_post dingtalk_down_def)
  from ding ding_posts
  have five: "notify (one_commit_world dingtalk_down) all_channels_config ''# report'' =
     ([HttpPost ?wecom (WecomMarkdown ''# report''), Print (WecomResult 500),
       HttpPost ?ding (DingtalkMarkdown ''# report'')], Inl ?e)"
    by (simp add: example_channels answer_500_def)
  note tg = notifications_answered_or_raised [where w = "one_commit_world telegram_down" and
      cfg = all_channels_config and md = "''# report''" and e = ?e and
      r = "answer_500 ?wecom (WecomMarkdown ''# report'')" and
      r' = "answer_500 ?ding (DingtalkMarkdown ''# report'')" and
      u = "telegram_url ''123:abc''" and chat_id = "''-100''" and part = "''# report''" and
      n = 1 and i = 0 and rest = "[]"]
  have tg_posts:
    "post (one_commit_world telegram_down) ?wecom (WecomMarkdown ''# report'') =
       Inr (answer_500 ?wecom (WecomMarkdown ''# report''))"
    "post (one_commit_world telegram_down) ?ding (DingtalkMarkdown ''# report'') =
       Inr (answer_500 ?ding (DingtalkMarkdown ''# report''))"
    "post (one_commit_world telegram_down) (telegram_url ''123:abc'')
       (TelegramMessage ''-100'' ''# report'') = Inl ?e"
    by (simp_all add: example_post telegram_down_def)
  from tg tg_posts(3)
  have six: "send_parts (one_commit_world telegram_down) (telegram_url ''123:abc'') ''-100'' 1 0
               [''# report''] =
             ([HttpPost (telegram_url ''123:abc'') (TelegramMessage ''-100'' ''# report'')], Inl ?e)"
    by blast
  then have "snd (send_telegram (one_commit_world telegram_down) ''123:abc'' ''-100'' ''# report'') =
               Inl ?e"
    by (simp add: send_telegram_def short_report_parts telegram_url_def Let_def)
  with tg tg_posts(1,2)
  have seven: "snd (notify (one_commit_world telegram_down) all_channels_config ''# report'') =
                 Inl ?e"
    by (simp add: example_channels)
  from one two three four five six seven show ?thesis by blast
qed

text \<open>
  The claim as stated fails for a failure that is raised: when the first webhook request
  raises, \<open>notify\<close> stops there, the second webhook, although configured, is never
  sent, and \<open>main\<close> exits with 1.
\<close>

theorem raised_notification_counterexample:
  "notify (one_commit_world (\<lambda>u data. Inl (RequestException ''timed out''))) example_config
     ''# report'' =
     ([HttpPost ''https://wecom.example.com/hook'' (WecomMarkdown ''# report'')],
      Inl (RequestException ''timed out'')) \<and>
   env_set (DINGTALK_WEBHOOK example_config) \<and>
   map_option snd (main (one_commit_world (\<lambda>u data. Inl (RequestException ''timed out'')))
      example_config example_text_report example_md_report) = Some 1"
proof -
  let ?w = "one_commit_world (\<lambda>u data. Inl (RequestException ''timed out''))"
  have sent: "notify ?w example_config ''# report'' =
     ([HttpPost ''https://wecom.example.com/hook'' (WecomMarkdown ''# report'')],
      Inl (RequestException ''timed out''))"
    by (simp add: notify_def send_wecom_def one_commit_world_def constant_world_def
        example_config_def env_set_def env_value_def Let_def)
  have devs: "collected (collect_stats ?w example_config
                 (new_GitLabClient (GITLAB_URL example_config) (GITLAB_TOKEN example_config))
                 (clock_yesterday ?w)) = [(''ann@example.com'', ann_after_one)]"
    by (rule collected_one_commit_world) (simp add: example_config_def)
  have written: "write_file ?w (path_join (report_dir ?w)
                          (''report_'' @ ymd_compact (clock_yesterday ?w) @ ''.md''))
            (example_md_report [(''ann@example.com'', ann_after_one)] (clock_yesterday ?w)) = Inr ()"
    by (simp add: one_commit_world_def constant_world_def)
  have raised: "snd (notify ?w example_config
                  (example_md_report [(''ann@example.com'', ann_after_one)] (clock_yesterday ?w))) =
                Inl (RequestException ''timed out'')"
    using sent by (simp add: example_md_report_def)
  have "map_option snd (main ?w example_config example_text_report example_md_report) = Some 1"
    using devs written raised
      main_exit_one [where w = ?w and cfg = example_config and gen_md = example_md_report and
        gen_text = example_text_report and devs = "[(''ann@example.com'', ann_after_one)]" and
        e = "RequestException ''timed out''"]
    by (simp add: example_config_def)
  with sent show ?thesis by (simp add: example_config_def env_set_def)
qed

section \<open>Splitting a long message\<close>

lemma split_lines_not_Nil: "split_lines s \<noteq> []"
  by (induction s) (auto split: list.splits)

lemma split_lines_Cons_other:
  "c \<noteq> newline \<Longrightarrow> split_lines (c # cs) = (c # hd (split_lines cs)) # tl (split_lines cs)"
  using split_lines_not_Nil [of cs] by (cases "split_lines cs") simp_all

lemma split_lines_segment:
  "newline \<notin> set xs \<Longrightarrow> split_lines (xs @ newline # ys) = xs # split_lines ys"
  by (induction xs) (auto simp: split_lines_Cons_other)

lemma split_lines_single: "newline \<notin> set xs \<Longrightarrow> split_lines xs = [xs]"
  by (induction xs) (auto simp: split_lines_Cons_other)

lemma join_split_lines: "join_lines (split_lines s) = s"
proof (induction s)
  case Nil
  then show ?case by simp
next
  case (Cons c cs)
  obtain l ls where ls: "split_lines cs = l # ls"
    using split_lines_not_Nil [of cs] by (cases "split_lines cs") auto
  show ?case
  proof (cases "c = newline")
    case True
    with Cons ls show ?thesis by simp
  next
    case False
    with Cons ls show ?thesis by (cases ls) auto
  qed
qed

lemma join_lines_snoc:
  "join_lines (g @ [l]) = (if g = [] then l else join_lines g @ newline # l)"
  by (induction g rule: join_lines.induct) simp_all

lemma join_lines_append:
  "g \<noteq> [] \<Longrightarrow> h \<noteq> [] \<Longrightarrow> join_lines (g @ h) = join_lines g @ newline # join_lines h"
  by (induction g rule: join_lines.induct) (simp_all, cases h, simp_all)

lemma join_lines_groups:
  "[] \<notin> set gs \<Longrightarrow> join_lines (map join_lines gs) = join_lines (concat gs)"
proof (induction gs)
  case Nil
  then show ?case by simp
next
  case (Cons g gs)
  show ?case
  proof (cases gs)
    case Nil
    then show ?thesis by simp
  next
    case (Cons h hs)
    with Cons.prems have "g \<noteq> []" "concat gs \<noteq> []" by auto
    then show ?thesis
      using Cons.IH Cons.prems Cons by (simp add: join_lines_append)
  qed
qed

lemma join_lines_empty_iff:
  "\<forall>l\<in>set g. l \<noteq> [] \<Longrightarrow> join_lines g = [] \<longleftrightarrow> g = []"
  by (induction g rule: join_lines.induct) simp_all


lemma split_loop_groups:
  assumes "\<forall>l\<in>set ls. l \<noteq> [] \<and> length l < M"
    and "\<forall>l\<in>set g. l \<noteq> []"
    and "length (join_lines g) \<le> M"
  shows "\<exists>gs g'. split_loop M ls (join_lines g) parts = (parts @ map join_lines gs, join_lines g') \<and>
           concat gs @ g' = g @ ls \<and> [] \<notin> set gs \<and>
           (\<forall>x\<in>set gs. length (join_lines x) \<le> M) \<and> length (join_lines g') \<le> M \<and>
           (\<forall>l\<in>set g'. l \<noteq> []) \<and> (g @ ls \<noteq> [] \<longrightarrow> g' \<noteq> [])"
  using assms
proof (induction ls arbitrary: g parts)
  case Nil
  show ?case
    using Nil.prems by (intro exI [of _ "[]"] exI [of _ g]) simp
next
  case (Cons l ls)
  have l: "l \<noteq> []" "length l < M" using Cons.prems(1) by auto
  have rest: "\<forall>l\<in>set ls. l \<noteq> [] \<and> length l < M" using Cons.prems(1) by auto
  show ?case
  proof (cases "length (join_lines g) + length l + 1 > M")
    case True
    then have g: "g \<noteq> []" using l by (cases g) auto
    have one: "\<forall>x\<in>set [l]. x \<noteq> []" "length (join_lines [l]) \<le> M" using l by auto
    from Cons.IH [OF rest one, of "parts @ [join_lines g]"]
    obtain gs g' where
      run: "split_loop M ls (join_lines [l]) (parts @ [join_lines g]) =
              ((parts @ [join_lines g]) @ map join_lines gs, join_lines g')" and
      props: "concat gs @ g' = [l] @ ls" "[] \<notin> set gs"
        "\<forall>x\<in>set gs. length (join_lines x) \<le> M" "length (join_lines g') \<le> M"
        "\<forall>l\<in>set g'. l \<noteq> []" "[l] @ ls \<noteq> [] \<longrightarrow> g' \<noteq> []"
      by blast
    have "split_loop M (l # ls) (join_lines g) parts =
            (parts @ map join_lines (g # gs), join_lines g')"
      using True run by simp
    moreover have "concat (g # gs) @ g' = g @ l # ls" using props(1) by simp
    moreover have "[] \<notin> set (g # gs)" using g props(2) by simp
    moreover have "\<forall>x\<in>set (g # gs). length (join_lines x) \<le> M"
      using props(3) Cons.prems(3) by simp
    moreover have "g' \<noteq> []" using props(6) by simp
    ultimately show ?thesis using props(4,5) by blast
  next
    case False
    have cur: "(if join_lines g \<noteq> [] then join_lines g @ [newline] @ l else l) = join_lines (g @ [l])"
      using join_lines_empty_iff [OF Cons.prems(2)] by (simp add: join_lines_snoc)
    have more: "\<forall>x\<in>set (g @ [l]). x \<noteq> []" using Cons.prems(2) l by auto
    have len: "length (join_lines (g @ [l])) \<le> M"
      using False l by (simp add: join_lines_snoc)
    from Cons.IH [OF rest more len, of parts]
    obtain gs g' where
      run: "split_loop M ls (join_lines (g @ [l])) parts = (parts @ map join_lines gs, join_lines g')" and
      props: "concat gs @ g' = (g @ [l]) @ ls" "[] \<notin> set gs"
        "\<forall>x\<in>set gs. length (join_lines x) \<le> M" "length (join_lines g') \<le> M"
        "\<forall>l\<in>set g'. l \<noteq> []" "(g @ [l]) @ ls \<noteq> [] \<longrightarrow> g' \<noteq> []"
      by blast
    have "split_loop M (l # ls) (join_lines g) parts = (parts @ map join_lines gs, join_lines g')"
      using False run cur by simp
    moreover have "concat gs @ g' = g @ l # ls" using props(1) by simp
    moreover have "g' \<noteq> []" using props(6) by simp
    ultimately show ?thesis using props(2-5) by blast
  qed
qed

text \<open>
  When no line of the message is empty, the loop rebuilds the message line by line: for
  a message longer than the cap whose lines are all non-empty and shorter than the cap,
  there are at least two parts, each of at most 4000 characters and made of whole
  consecutive lines, and the parts joined by newlines are the message.
\<close>

lemma telegram_parts_whole_lines:
  assumes "length content > max_len"
    and "\<forall>l\<in>set (split_lines content). l \<noteq> [] \<and> length l < max_len"
  shows "2 \<le> length (telegram_parts content) \<and>
         (\<forall>part\<in>set (telegram_parts content). length part \<le> max_len) \<and>
         (\<exists>groups. [] \<notin> set groups \<and> concat groups = split_lines content \<and>
                    telegram_parts content = map join_lines groups) \<and>
         join_lines (telegram_parts content) = content"
proof -
  have start: "\<forall>l\<in>set ([]::string list). l \<noteq> []" "length (join_lines []) \<le> max_len" by simp_all
  from split_loop_groups [OF assms(2) start, of "[]"]
  obtain gs g' where
    run: "split_loop max_len (split_lines content) [] [] = (map join_lines gs, join_lines g')" and
    props: "concat gs @ g' = split_lines content" "[] \<notin> set gs"
      "\<forall>x\<in>set gs. length (join_lines x) \<le> max_len" "length (join_lines g') \<le> max_len"
      "\<forall>l\<in>set g'. l \<noteq> []" "split_lines content \<noteq> [] \<longrightarrow> g' \<noteq> []"
    by auto
  have g': "g' \<noteq> []" using props(6) split_lines_not_Nil by blast
  then have cur: "join_lines g' \<noteq> []" using join_lines_empty_iff [OF props(5)] by simp
  have parts: "telegram_parts content = map join_lines (gs @ [g'])"
    using assms(1) run cur by (simp add: telegram_parts_def Let_def)
  have groups: "[] \<notin> set (gs @ [g'])" "concat (gs @ [g']) = split_lines content"
    using props(1,2) g' by auto
  have whole: "join_lines (telegram_parts content) = content"
    using join_lines_groups [OF groups(1)] groups(2) by (simp add: parts join_split_lines)
  have short: "\<forall>part\<in>set (telegram_parts content). length part \<le> max_len"
    using props(3,4) by (auto simp: parts)
  have "gs \<noteq> []"
  proof
    assume "gs = []"
    then have "telegram_parts content = [content]"
      using parts props(1) by (simp add: join_split_lines)
    with short assms(1) show False by simp
  qed
  then have many: "2 \<le> length (telegram_parts content)"
    by (cases gs) (simp_all add: parts)
  from many short groups parts whole show ?thesis by blast
qed


lemma newline_not_letter: "newline \<noteq> CHR ''a''" "newline \<noteq> CHR ''b''"
  by (simp_all add: newline_def)

lemma boundary_blank_message_lines:
  "split_lines boundary_blank_message =
     [replicate 2000 CHR ''a'', replicate 1999 CHR ''b'', [], ''c'']"
proof -
  have last: "split_lines ''c'' = [''c'']"
    by (rule split_lines_single) (simp add: newline_def)
  have "split_lines (newline # ''c'') = [[], ''c'']"
    using last by simp
  then have "split_lines (replicate 1999 CHR ''b'' @ newline # newline # ''c'') =
               [replicate 1999 CHR ''b'', [], ''c'']"
    by (simp add: split_lines_segment newline_not_letter)
  then show ?thesis
    by (simp add: boundary_blank_message_def split_lines_segment newline_not_letter)
qed

text \<open>
  Claim C7 fails on the code. The loop tests \<open>current\<close> for emptiness to decide whether
  a part has been begun, so an empty line that begins a part is taken for no line at
  all. On the message of 4003 characters whose lines (2000, 1999, 0 and 1 characters) are
  all shorter than the cap, the first two lines fill a part to the cap, the empty line
  opens the next part and is lost: the two parts joined by newlines have 4002 characters
  and are not the message.
\<close>

theorem telegram_parts_drop_blank_line:
  "length boundary_blank_message = 4003 \<and>
   split_lines boundary_blank_message =
     [replicate 2000 CHR ''a'', replicate 1999 CHR ''b'', [], ''c''] \<and>
   telegram_parts boundary_blank_message =
     [replicate 2000 CHR ''a'' @ newline # replicate 1999 CHR ''b'', ''c''] \<and>
   length (join_lines (telegram_parts boundary_blank_message)) = 4002 \<and>
   join_lines (telegram_parts boundary_blank_message) \<noteq> boundary_blank_message"
proof -
  have long: "length boundary_blank_message = 4003"
    by (simp add: boundary_blank_message_def)
  have parts: "telegram_parts boundary_blank_message =
                 [replicate 2000 CHR ''a'' @ newline # replicate 1999 CHR ''b'', ''c'']"
    using long by (simp add: telegram_parts_def boundary_blank_message_lines max_len_def Let_def)
  have joined: "length (join_lines (telegram_parts boundary_blank_message)) = 4002"
    unfolding parts by simp
  have lost: "join_lines (telegram_parts boundary_blank_message) \<noteq> boundary_blank_message"
  proof
    assume "join_lines (telegram_parts boundary_blank_message) = boundary_blank_message"
    then have "length (join_lines (telegram_parts boundary_blank_message)) =
               length boundary_blank_message"
      by (rule arg_cong)
    with joined long show False by simp
  qed
  from long boundary_blank_message_lines parts joined lost show ?thesis by blast
qed

section \<open>The matcher on the exclusion patterns\<close>

lemma match_at_position: "Bol \<notin> set p \<Longrightarrow> match_at p n s = match_at p m s"
proof (induction p n s arbitrary: m rule: match_at.induct)
  case (1 n s)
  then show ?case by simp
next
  case (2 p n s)
  then show ?case by simp
next
  case (3 p n s)
  from 3(1) [of m] 3(2) show ?case by simp
next
  case (4 a p n)
  then show ?case by simp
next
  case (5 a p n c cs)
  from 5(1) [of "Suc m"] 5(2) show ?case by simp
next
  case (6 a p n)
  from 6(1) [of m] 6(2) show ?case by simp
next
  case (7 a p n c cs)
  from 7(1) [of "Suc m"] 7(2) [of m] 7(3) show ?case by simp
next
  case (8 a p n)
  from 8(1) [of m] 8(2) show ?case by simp
next
  case (9 a p n c cs)
  from 9(1) [of "Suc m"] 9(2) [of m] 9(3) show ?case by simp
next
  case (10 a p n)
  then show ?case by simp
next
  case (11 a p n c cs)
  from 11(1) [of "Suc m"] 11(2) show ?case by simp
qed

lemma match_at_here: "Bol \<notin> set p \<Longrightarrow> match_at p n s = matches_here p s"
  unfolding matches_here_def by (rule match_at_position)














section \<open>The patterns and the rules in words\<close>





























end
